theory Spec2Isabelle
  imports Main
begin

section \<open>The NusaParagraph-Emot dataset adapter\<close>

text \<open>
  A shallow embedding of \<^verbatim>\<open>seacrowd/sea_datasets/nusaparagraph_emot/nusaparagraph_emot.py\<close>.
  The download manager, the CSV reader and the dataset framework are collaborators of the
  adapter. The download manager and the CSV reader are parameters of the functions that
  call them; the framework's version object and the data frame operations the adapter
  applies are written out. A split file has the columns \<^verbatim>\<open>id\<close>, \<^verbatim>\<open>text\<close> and \<^verbatim>\<open>label\<close> and
  may have further columns; the split files of the corpus share one header.
\<close>

subsection \<open>Python values, exceptions and string helpers\<close>

text \<open>
  A cell of a data frame: an integer (an int64 column) or a string (an object column).
  Floating-point cells are not modelled.
\<close>

datatype pyval = PyInt int | PyStr string

text \<open>
  Exceptions with their messages. \<open>InvalidConfigName\<close> is the framework's, a subclass of
  \<^verbatim>\<open>ValueError\<close>. \<open>Upstream\<close> carries a failure of the CSV reader (a missing or malformed
  file), which the adapter neither catches nor wraps.
\<close>

datatype error =
    ValueError string
  | TypeError string
  | IndexError string
  | KeyError string
  | AttributeError string
  | UnboundLocalError string
  | InvalidConfigName string
  | Upstream string

definition digit_char :: "nat \<Rightarrow> char" where
  "digit_char d = ''0123456789'' ! d"

function str_nat :: "nat \<Rightarrow> string" where
  "str_nat n = (if n < 10 then [digit_char n] else str_nat (n div 10) @ [digit_char (n mod 10)])"
  by pat_completeness auto
termination
  by (relation "measure (\<lambda>n. n)") auto

declare str_nat.simps [simp del]

definition str_int :: "int \<Rightarrow> string" where
  "str_int i = (if i < 0 then CHR ''-'' # str_nat (nat (- i)) else str_nat (nat i))"

text \<open>Python's \<^verbatim>\<open>str(v)\<close> on a cell.\<close>

fun py_str :: "pyval \<Rightarrow> string" where
  "py_str (PyInt i) = str_int i"
| "py_str (PyStr s) = s"

text \<open>
  Python's \<^verbatim>\<open>s.split(sep)\<close> for a one-character separator: the pieces between the
  separators, at least one piece, empty pieces kept.
\<close>

fun str_split :: "char \<Rightarrow> string \<Rightarrow> string list" where
  "str_split sep [] = [[]]"
| "str_split sep (c # cs) =
     (if c = sep then [] # str_split sep cs
      else (case str_split sep cs of
              [] \<Rightarrow> [[c]]
            | p # ps \<Rightarrow> (c # p) # ps))"

text \<open>A list comprehension whose body may raise: the first exception ends it.\<close>

primrec list_comp :: "('a \<Rightarrow> error + 'b) \<Rightarrow> 'a list \<Rightarrow> error + 'b list" where
  "list_comp f [] = Inr []"
| "list_comp f (x # xs) =
     (case f x of
        Inl e \<Rightarrow> Inl e
      | Inr y \<Rightarrow> (case list_comp f xs of Inl e \<Rightarrow> Inl e | Inr ys \<Rightarrow> Inr (y # ys)))"

subsection \<open>The framework's version object\<close>

text \<open>
  \<^verbatim>\<open>datasets.Version(version_str)\<close>. The framework matches the string against
  \<^verbatim>\<open>^(\d+)\.(\d+)\.(\d+)$\<close>, where \<^verbatim>\<open>$\<close> also matches before one final newline, and raises
  \<^verbatim>\<open>ValueError\<close> when it does not match; it then converts the three runs of digits with
  \<^verbatim>\<open>int\<close>, which by CPython's default refuses a run of more than 4300 digits. Characters
  are bytes here, so the digits are the ASCII digits.
\<close>

record Version =
  version_str :: string
  major :: nat
  minor :: nat
  patch :: nat

definition is_digits :: "string \<Rightarrow> bool" where
  "is_digits s \<longleftrightarrow> s \<noteq> [] \<and> list_all (\<lambda>c. c \<in> set ''0123456789'') s"

definition nat_of_digits :: "string \<Rightarrow> nat" where
  "nat_of_digits s = foldl (\<lambda>n c. 10 * n + (of_char c - 48)) 0 s"

definition make_Version :: "string \<Rightarrow> error + Version" where
  "make_Version s =
     (let body = (if s \<noteq> [] \<and> last s = CHR 0x0A then butlast s else s);
          invalid = ValueError (''Invalid version '' @ [CHR 0x27] @ s @ [CHR 0x27]
                                 @ ''. Format should be x.y.z with {x,y,z} being digits.'')
      in case str_split CHR ''.'' body of
           [x, y, z] \<Rightarrow>
             if is_digits x \<and> is_digits y \<and> is_digits z
             then if length x \<le> 4300 \<and> length y \<le> 4300 \<and> length z \<le> 4300
                  then Inr \<lparr> version_str = s, major = nat_of_digits x, minor = nat_of_digits y,
                             patch = nat_of_digits z \<rparr>
                  else Inl (ValueError ''Exceeds the limit (4300 digits) for integer string conversion'')
             else Inl invalid
         | _ \<Rightarrow> Inl invalid)"

subsection \<open>Configurations\<close>

definition SOURCE_VERSION :: string where
  "SOURCE_VERSION = ''1.0.0''"

definition SEACROWD_VERSION :: string where
  "SEACROWD_VERSION = ''1.0.0''"

text \<open>
  \<^verbatim>\<open>SEACrowdConfig\<close> is declared in \<^verbatim>\<open>seacrowd.utils.configs\<close>; its fields here are the
  keyword arguments the constructor below passes.
\<close>

record SEACrowdConfig =
  name :: string
  version :: Version
  description :: string
  schema :: string
  subset_id :: string

text \<open>
  \<^verbatim>\<open>SEACrowdConfig(...)\<close>: a dataclass over the framework's \<^verbatim>\<open>BuilderConfig\<close>, which after
  initialisation refuses a name that has a character of
  \<^verbatim>\<open>INVALID_WINDOWS_CHARACTERS_IN_PATH\<close>, the characters \<^verbatim>\<open><>:/\|?*\<close>.
\<close>

definition INVALID_WINDOWS_CHARACTERS_IN_PATH :: string where
  "INVALID_WINDOWS_CHARACTERS_IN_PATH = ''<>:/'' @ [CHR 0x5C] @ ''|?*''"

definition new_SEACrowdConfig :: "SEACrowdConfig \<Rightarrow> error + SEACrowdConfig" where
  "new_SEACrowdConfig config =
     (if list_ex (\<lambda>invalid_char. invalid_char \<in> set (name config))
           INVALID_WINDOWS_CHARACTERS_IN_PATH
      then Inl (InvalidConfigName
                  (''Bad characters from black list '' @ [CHR 0x27]
                     @ INVALID_WINDOWS_CHARACTERS_IN_PATH @ [CHR 0x27] @ '' found in ''
                     @ [CHR 0x27] @ name config @ [CHR 0x27] @ ''. They could create issues when ''
                     @ ''creating a directory for this config on Windows filesystem.''))
      else Inr config)"

text \<open>
  The constructor checks the schema first; building the configuration then evaluates
  \<^verbatim>\<open>datasets.Version(version)\<close> and initialises the configuration, and the constructor lets
  the exception of either through.
\<close>

definition seacrowd_config_constructor ::
  "string \<Rightarrow> string \<Rightarrow> string \<Rightarrow> error + SEACrowdConfig" where
  "seacrowd_config_constructor lang schema_name version_arg =
     (if schema_name \<noteq> ''source'' \<and> schema_name \<noteq> ''seacrowd_text''
      then Inl (ValueError (''Invalid schema: '' @ schema_name))
      else if lang = ''''
      then (case make_Version version_arg of
              Inl e \<Rightarrow> Inl e
            | Inr v \<Rightarrow>
                new_SEACrowdConfig
                    \<lparr> name = ''nusaparagraph_emot_'' @ schema_name,
                      version = v,
                      description = ''nusaparagraph_emot with '' @ schema_name
                                      @ '' schema for all 10 languages'',
                      schema = schema_name,
                      subset_id = ''nusaparagraph_emot'' \<rparr>)
      else (case make_Version version_arg of
              Inl e \<Rightarrow> Inl e
            | Inr v \<Rightarrow>
                new_SEACrowdConfig
                    \<lparr> name = ''nusaparagraph_emot_'' @ lang @ ''_'' @ schema_name,
                      version = v,
                      description = ''nusaparagraph_emot with '' @ schema_name
                                      @ '' schema for '' @ lang @ '' language'',
                      schema = schema_name,
                      subset_id = ''nusaparagraph_emot'' \<rparr>))"

text \<open>The language table, a dict: iteration follows the order of insertion.\<close>

definition LANGUAGES_MAP :: "(string \<times> string) list" where
  "LANGUAGES_MAP =
     [(''btk'', ''batak''), (''bew'', ''betawi''), (''bug'', ''buginese''),
      (''jav'', ''javanese''), (''mad'', ''madurese''), (''mak'', ''makassarese''),
      (''min'', ''minangkabau''), (''mui'', ''musi''), (''rej'', ''rejang''),
      (''sun'', ''sundanese'')]"

text \<open>\<^verbatim>\<open>for lang in LANGUAGES_MAP\<close> runs over the keys.\<close>

definition language_codes :: "string list" where
  "language_codes = map fst LANGUAGES_MAP"

definition BUILDER_CONFIGS :: "error + SEACrowdConfig list" where
  "BUILDER_CONFIGS =
     (case list_comp (\<lambda>lang. seacrowd_config_constructor lang ''source'' SOURCE_VERSION)
             language_codes of
        Inl e \<Rightarrow> Inl e
      | Inr source_configs \<Rightarrow>
     (case list_comp (\<lambda>lang. seacrowd_config_constructor lang ''seacrowd_text'' SEACROWD_VERSION)
             language_codes of
        Inl e \<Rightarrow> Inl e
      | Inr seacrowd_configs \<Rightarrow>
     (case seacrowd_config_constructor '''' ''source'' SOURCE_VERSION of
        Inl e \<Rightarrow> Inl e
      | Inr all_source \<Rightarrow>
     (case seacrowd_config_constructor '''' ''seacrowd_text'' SEACROWD_VERSION of
        Inl e \<Rightarrow> Inl e
      | Inr all_seacrowd \<Rightarrow>
          Inr (source_configs @ seacrowd_configs @ [all_source, all_seacrowd])))))"

definition DEFAULT_CONFIG_NAME :: string where
  "DEFAULT_CONFIG_NAME = ''nusaparagraph_emot_ind_source''"

text \<open>The framework selects a configuration by its name.\<close>

definition select_config :: "string \<Rightarrow> SEACrowdConfig list \<Rightarrow> SEACrowdConfig option" where
  "select_config n configs = find (\<lambda>c. name c = n) configs"

text \<open>
  The test both \<^verbatim>\<open>_split_generators\<close> and \<^verbatim>\<open>_generate_examples\<close> make on the
  configuration's name: the two names of the all-languages configurations.
\<close>

definition is_aggregate :: "SEACrowdConfig \<Rightarrow> bool" where
  "is_aggregate config \<longleftrightarrow>
     name config = ''nusaparagraph_emot_source'' \<or> name config = ''nusaparagraph_emot_seacrowd_text''"

subsection \<open>The declared features\<close>

datatype feature = Value_string | ClassLabel "string list"

text \<open>
  Modelled from the spec: \<^verbatim>\<open>schemas.text_features\<close> is declared in \<^verbatim>\<open>seacrowd.utils.schemas\<close>,
  which is not among the sources; the normalized record is \<^verbatim>\<open>{id, text, label}\<close> with the label
  drawn from the label names given.
\<close>

definition text_features :: "string list \<Rightarrow> (string \<times> feature) list" where
  "text_features label_names =
     [(''id'', Value_string), (''text'', Value_string), (''label'', ClassLabel label_names)]"

text \<open>The label names \<^verbatim>\<open>_info\<close> declares for the \<^verbatim>\<open>seacrowd_text\<close> schema.\<close>

definition emotion_labels :: "string list" where
  "emotion_labels = [''fear'', ''disgusted'', ''sad'', ''happy'', ''angry'', ''surprise'', ''shame'']"

text \<open>
  \<^verbatim>\<open>_info\<close>, reduced to the features it declares. With a schema that is neither of the two,
  \<^verbatim>\<open>features\<close> is read before it was assigned.
\<close>

definition info :: "SEACrowdConfig \<Rightarrow> error + (string \<times> feature) list" where
  "info config =
     (if schema config = ''source''
      then Inr [(''id'', Value_string), (''text'', Value_string), (''label'', Value_string)]
      else if schema config = ''seacrowd_text''
      then Inr (text_features emotion_labels)
      else Inl (UnboundLocalError ''features''))"

subsection \<open>Split resolution\<close>

datatype Split = TRAIN | VALIDATION | TEST

text \<open>\<^verbatim>\<open>_URLS[split].format(lang=lang)\<close>.\<close>

fun URLS :: "Split \<Rightarrow> string \<Rightarrow> string" where
  "URLS TRAIN lang =
     ''https://raw.githubusercontent.com/IndoNLP/nusa-writes/main/data/nusa_alinea-emot-''
       @ lang @ ''-train.csv''"
| "URLS VALIDATION lang =
     ''https://raw.githubusercontent.com/IndoNLP/nusa-writes/main/data/nusa_alinea-emot-''
       @ lang @ ''-valid.csv''"
| "URLS TEST lang =
     ''https://raw.githubusercontent.com/IndoNLP/nusa-writes/main/data/nusa_alinea-emot-''
       @ lang @ ''-test.csv''"

text \<open>
  What a split generator is given as \<^verbatim>\<open>filepath\<close>: one local path, or the list of local
  paths the download manager returns for a list of URLs.
\<close>

datatype 'p filepath = Path 'p | PathList "'p list"

text \<open>The local paths a \<^verbatim>\<open>filepath\<close> argument names.\<close>

fun filepath_list :: "'p filepath \<Rightarrow> 'p list" where
  "filepath_list (Path p) = [p]"
| "filepath_list (PathList ps) = ps"

text \<open>
  \<^verbatim>\<open>_split_generators\<close>. \<open>download_and_extract\<close> is the download manager, from a URL to
  the local path of the fetched file; given a list it fetches each URL, in order. The
  result pairs each split with its \<^verbatim>\<open>gen_kwargs["filepath"]\<close>.
\<close>

definition split_generators ::
  "(string \<Rightarrow> 'p) \<Rightarrow> SEACrowdConfig \<Rightarrow> error + (Split \<times> 'p filepath) list" where
  "split_generators download_and_extract config =
     (if name config = ''nusaparagraph_emot_source''
         \<or> name config = ''nusaparagraph_emot_seacrowd_text''
      then
        (let train_csv_path = PathList (map download_and_extract (map (URLS TRAIN) language_codes));
             validation_csv_path = PathList (map download_and_extract (map (URLS VALIDATION) language_codes));
             test_csv_path = PathList (map download_and_extract (map (URLS TEST) language_codes))
         in Inr [(TRAIN, train_csv_path), (VALIDATION, validation_csv_path), (TEST, test_csv_path)])
      else
        (let parts = str_split CHR ''_'' (name config) in
         if length parts \<le> 2 then Inl (IndexError ''list index out of range'')
         else
           (let lang = parts ! 2;
                train_csv_path = Path (download_and_extract (URLS TRAIN lang));
                validation_csv_path = Path (download_and_extract (URLS VALIDATION lang));
                test_csv_path = Path (download_and_extract (URLS TEST lang))
            in Inr [(TRAIN, train_csv_path), (VALIDATION, validation_csv_path), (TEST, test_csv_path)])))"

subsection \<open>Data frames\<close>

text \<open>
  A row of a parsed split file has a cell in each of the columns \<^verbatim>\<open>id\<close>, \<^verbatim>\<open>text\<close> and
  \<^verbatim>\<open>label\<close>; the cells of further columns live in the extension of the record.
\<close>

record csv_row =
  row_id :: pyval
  row_text :: pyval
  row_label :: pyval

text \<open>
  A data frame: its rows, and its columns by name, each column the way to read a row's
  cell in it. The index of every frame here is the default one, the positions
  \<open>0, 1, ...\<close> of the rows.
\<close>

record 'r frame =
  columns :: "string \<Rightarrow> ('r \<Rightarrow> pyval) option"
  rows :: "'r list"

text \<open>
  The columns of a split file, given the further columns of the header the split files
  share.
\<close>

definition file_columns ::
  "(string \<Rightarrow> ('x csv_row_scheme \<Rightarrow> pyval) option) \<Rightarrow> string \<Rightarrow> ('x csv_row_scheme \<Rightarrow> pyval) option" where
  "file_columns further =
     further(''id'' \<mapsto> row_id, ''text'' \<mapsto> row_text, ''label'' \<mapsto> row_label)"

text \<open>
  \<^verbatim>\<open>pd.read_csv(fp)\<close>: \<open>read_csv\<close> gives the parsed rows of the file at a local path, or the
  reader's failure.
\<close>

definition pd_read_csv ::
  "('p \<Rightarrow> string + 'x csv_row_scheme list) \<Rightarrow> (string \<Rightarrow> ('x csv_row_scheme \<Rightarrow> pyval) option) \<Rightarrow> 'p
     \<Rightarrow> error + 'x csv_row_scheme frame" where
  "pd_read_csv read_csv further fp =
     (case read_csv fp of
        Inl e \<Rightarrow> Inl (Upstream e)
      | Inr parsed \<Rightarrow> Inr \<lparr> columns = file_columns further, rows = parsed \<rparr>)"

text \<open>
  \<^verbatim>\<open>pd.concat(ldf, axis=0, ignore_index=True)\<close> on frames of one header: the rows of the
  frames, one frame after the other, under the default index.
\<close>

definition pd_concat :: "'r frame list \<Rightarrow> error + 'r frame" where
  "pd_concat ldf =
     (case ldf of
        [] \<Rightarrow> Inl (ValueError ''No objects to concatenate'')
      | df # _ \<Rightarrow> Inr \<lparr> columns = columns df, rows = concat (map rows ldf) \<rparr>)"

text \<open>
  \<^verbatim>\<open>df.reset_index()\<close>: the index becomes a new column holding each row's position. pandas
  names the column \<^verbatim>\<open>index\<close>, or \<^verbatim>\<open>level_0\<close> when the frame already has a column \<^verbatim>\<open>index\<close>,
  and refuses to insert a column whose name the frame already has.
\<close>

definition reset_index :: "'r frame \<Rightarrow> error + (int \<times> 'r) frame" where
  "reset_index df =
     (let new_name = (if columns df ''index'' = None then ''index'' else ''level_0'') in
      if columns df new_name \<noteq> None
      then Inl (ValueError (''cannot insert '' @ new_name @ '', already exists''))
      else Inr \<lparr> columns = (\<lambda>c. if c = new_name then Some (\<lambda>(i, r). PyInt i)
                                  else map_option (\<lambda>cell. \<lambda>(i, r). cell r) (columns df c)),
                 rows = map (\<lambda>(i, r). (int i, r)) (enumerate 0 (rows df)) \<rparr>)"

text \<open>\<^verbatim>\<open>df.drop(columns=[c])\<close>: without the column \<open>c\<close>, which the frame must have.\<close>

definition drop_column :: "string \<Rightarrow> 'r frame \<Rightarrow> error + 'r frame" where
  "drop_column c df =
     (if columns df c = None
      then Inl (KeyError (''['' @ [CHR 0x27] @ c @ [CHR 0x27] @ ''] not found in axis''))
      else Inr (df \<lparr> columns := (columns df)(c := None) \<rparr>))"

text \<open>
  \<^verbatim>\<open>df.rename(columns={old: new})\<close>: the column \<open>old\<close>, if the frame has it, goes by the
  name \<open>new\<close>; a frame without it is left as it is. (The adapter renames to \<^verbatim>\<open>id\<close> right
  after dropping \<^verbatim>\<open>id\<close>, so no other column has the new name.)
\<close>

definition rename_column :: "string \<Rightarrow> string \<Rightarrow> 'r frame \<Rightarrow> 'r frame" where
  "rename_column old new df =
     (case columns df old of
        None \<Rightarrow> df
      | Some cell \<Rightarrow> df \<lparr> columns := (columns df)(old := None, new \<mapsto> cell) \<rparr>)"

subsection \<open>Example emission\<close>

record example =
  ex_id :: string
  ex_text :: pyval
  ex_label :: pyval

text \<open>The exception of reading an attribute the row tuple does not have.\<close>

definition no_attribute :: "string \<Rightarrow> error" where
  "no_attribute c =
     AttributeError (CHR 0x27 # ''Pandas'' @ [CHR 0x27] @ '' object has no attribute ''
                       @ [CHR 0x27] @ c @ [CHR 0x27])"

text \<open>
  The loop \<^verbatim>\<open>for row in df.itertuples(): ... yield row.id, ex\<close>: the pairs it yields, in
  order. A column the loop reads and the frame lacks is an \<^verbatim>\<open>AttributeError\<close> at the first
  row, before anything is yielded; a frame without rows yields nothing.
\<close>

definition yield_rows :: "'r frame \<Rightarrow> error + (pyval \<times> example) list" where
  "yield_rows df =
     (if rows df = [] then Inr []
      else case columns df ''id'' of
        None \<Rightarrow> Inl (no_attribute ''id'')
      | Some id_cell \<Rightarrow>
     (case columns df ''text'' of
        None \<Rightarrow> Inl (no_attribute ''text'')
      | Some text_cell \<Rightarrow>
     (case columns df ''label'' of
        None \<Rightarrow> Inl (no_attribute ''label'')
      | Some label_cell \<Rightarrow>
          Inr (map (\<lambda>row. (id_cell row,
                            \<lparr> ex_id = py_str (id_cell row), ex_text = text_cell row,
                              ex_label = label_cell row \<rparr>))
                   (rows df)))))"

text \<open>
  \<^verbatim>\<open>_generate_examples\<close>. \<open>read_csv\<close> is the CSV reader and \<open>further\<close> the further columns
  of the split files' header. Every statement that can raise stands before the first
  \<^verbatim>\<open>yield\<close>, so a run either raises having yielded nothing (\<open>Inl\<close>) or yields all its pairs
  (\<open>Inr\<close>). Iterating over a single path and reading a list as one file are type errors of
  Python and of the reader.
\<close>

definition generate_examples ::
  "('p \<Rightarrow> string + 'x csv_row_scheme list) \<Rightarrow> (string \<Rightarrow> ('x csv_row_scheme \<Rightarrow> pyval) option)
     \<Rightarrow> SEACrowdConfig \<Rightarrow> 'p filepath \<Rightarrow> error + (pyval \<times> example) list" where
  "generate_examples read_csv further config filepath =
     (if schema config \<noteq> ''source'' \<and> schema config \<noteq> ''seacrowd_text''
      then Inl (ValueError (''Invalid config: '' @ name config))
      else if name config = ''nusaparagraph_emot_source''
              \<or> name config = ''nusaparagraph_emot_seacrowd_text''
      then
        (case filepath of
           Path p \<Rightarrow> Inl (TypeError (CHR 0x27 # ''PosixPath'' @ [CHR 0x27] @ '' object is not iterable''))
         | PathList ps \<Rightarrow>
             (case list_comp (pd_read_csv read_csv further) ps of
                Inl e \<Rightarrow> Inl e
              | Inr ldf \<Rightarrow>
             (case pd_concat ldf of
                Inl e \<Rightarrow> Inl e
              | Inr concatenated \<Rightarrow>
             (case reset_index concatenated of
                Inl e \<Rightarrow> Inl e
              | Inr indexed \<Rightarrow>
             (case drop_column ''id'' indexed of
                Inl e \<Rightarrow> Inl e
              | Inr dropped \<Rightarrow> yield_rows (rename_column ''index'' ''id'' dropped))))))
      else
        (case filepath of
           PathList ps \<Rightarrow>
             Inl (ValueError (''Invalid file path or buffer object type: <class '' @ [CHR 0x27]
                               @ ''list'' @ [CHR 0x27] @ ''>''))
         | Path p \<Rightarrow>
             (case pd_read_csv read_csv further p of
                Inl e \<Rightarrow> Inl e
              | Inr parsed \<Rightarrow>
             (case reset_index parsed of
                Inl e \<Rightarrow> Inl e
              | Inr df \<Rightarrow> yield_rows df))))"

subsection \<open>Vocabulary of the properties and sample inputs\<close>

text \<open>The keys of a yielded sequence are \<open>0, 1, ..., N - 1\<close>, in this order.\<close>

definition contiguous_ids :: "(pyval \<times> example) list \<Rightarrow> bool" where
  "contiguous_ids ys \<longleftrightarrow> map fst ys = map (\<lambda>i. PyInt (int i)) [0..<length ys]"

text \<open>Four of the registered configurations, as the constructor builds them.\<close>

definition jav_source :: SEACrowdConfig where
  "jav_source =
     \<lparr> name = ''nusaparagraph_emot_jav_source'',
       version = \<lparr> version_str = ''1.0.0'', major = 1, minor = 0, patch = 0 \<rparr>,
       description = ''nusaparagraph_emot with source schema for jav language'',
       schema = ''source'', subset_id = ''nusaparagraph_emot'' \<rparr>"

definition jav_seacrowd_text :: SEACrowdConfig where
  "jav_seacrowd_text =
     \<lparr> name = ''nusaparagraph_emot_jav_seacrowd_text'',
       version = \<lparr> version_str = ''1.0.0'', major = 1, minor = 0, patch = 0 \<rparr>,
       description = ''nusaparagraph_emot with seacrowd_text schema for jav language'',
       schema = ''seacrowd_text'', subset_id = ''nusaparagraph_emot'' \<rparr>"

definition all_source :: SEACrowdConfig where
  "all_source =
     \<lparr> name = ''nusaparagraph_emot_source'',
       version = \<lparr> version_str = ''1.0.0'', major = 1, minor = 0, patch = 0 \<rparr>,
       description = ''nusaparagraph_emot with source schema for all 10 languages'',
       schema = ''source'', subset_id = ''nusaparagraph_emot'' \<rparr>"

definition all_seacrowd_text :: SEACrowdConfig where
  "all_seacrowd_text =
     \<lparr> name = ''nusaparagraph_emot_seacrowd_text'',
       version = \<lparr> version_str = ''1.0.0'', major = 1, minor = 0, patch = 0 \<rparr>,
       description = ''nusaparagraph_emot with seacrowd_text schema for all 10 languages'',
       schema = ''seacrowd_text'', subset_id = ''nusaparagraph_emot'' \<rparr>"

text \<open>A split file of two rows whose \<^verbatim>\<open>id\<close> column holds 5 and 9, and one of three rows.\<close>

definition rows_a :: "csv_row list" where
  "rows_a =
     [\<lparr> row_id = PyInt 5, row_text = PyStr ''a'', row_label = PyStr ''happy'' \<rparr>,
      \<lparr> row_id = PyInt 9, row_text = PyStr ''b'', row_label = PyStr ''sad'' \<rparr>]"

definition rows_b :: "csv_row list" where
  "rows_b =
     [\<lparr> row_id = PyInt 0, row_text = PyStr ''c'', row_label = PyStr ''fear'' \<rparr>,
      \<lparr> row_id = PyInt 1, row_text = PyStr ''d'', row_label = PyStr ''angry'' \<rparr>,
      \<lparr> row_id = PyInt 2, row_text = PyStr ''e'', row_label = PyStr ''shame'' \<rparr>]"

text \<open>A reader that finds \<open>rows_a\<close> at one path, \<open>rows_b\<close> at another and no rows elsewhere.\<close>

definition read_a_b :: "string \<Rightarrow> string \<Rightarrow> string \<Rightarrow> string + csv_row list" where
  "read_a_b a b p = (if p = a then Inr rows_a else if p = b then Inr rows_b else Inr [])"

text \<open>A split file with a label outside the declared label names.\<close>

definition rows_joy :: "csv_row list" where
  "rows_joy = [\<lparr> row_id = PyInt 0, row_text = PyStr ''a'', row_label = PyStr ''joy'' \<rparr>]"

text \<open>
  Split files with a fourth column, named \<^verbatim>\<open>index\<close>: the rows carry its cell, and the
  header's further columns are that one column. The file below has two rows, with 70 and
  80 in that column.
\<close>

record indexed_csv_row = csv_row +
  row_own_index :: pyval

definition index_header :: "string \<Rightarrow> (indexed_csv_row \<Rightarrow> pyval) option" where
  "index_header = [''index'' \<mapsto> row_own_index]"

definition rows_own_index :: "indexed_csv_row list" where
  "rows_own_index =
     [\<lparr> row_id = PyInt 0, row_text = PyStr ''a'', row_label = PyStr ''happy'',
        row_own_index = PyInt 70 \<rparr>,
      \<lparr> row_id = PyInt 1, row_text = PyStr ''b'', row_label = PyStr ''sad'',
        row_own_index = PyInt 80 \<rparr>]"

section \<open>Properties\<close>

subsection \<open>Auxiliary facts\<close>

lemma file_columns_simps [simp]:
  "file_columns further ''id'' = Some row_id"
  "file_columns further ''text'' = Some row_text"
  "file_columns further ''label'' = Some row_label"
  "file_columns further ''index'' = further ''index''"
  "file_columns further ''level_0'' = further ''level_0''"
  by (simp_all add: file_columns_def)

lemma list_comp_read_all:
  "map read_csv ps = map Inr ldf \<Longrightarrow>
     list_comp (pd_read_csv read_csv further) ps
       = Inr (map (\<lambda>parsed. \<lparr> columns = file_columns further, rows = parsed \<rparr>) ldf)"
proof (induction ps arbitrary: ldf)
  case Nil
  then show ?case by simp
next
  case (Cons p ps)
  from Cons.prems obtain parsed rest where ldf: "ldf = parsed # rest"
    and p: "read_csv p = Inr parsed" and rest: "map read_csv ps = map Inr rest"
    by (auto simp: Cons_eq_map_conv)
  from p have "pd_read_csv read_csv further p
                 = Inr \<lparr> columns = file_columns further, rows = parsed \<rparr>"
    by (simp add: pd_read_csv_def)
  with Cons.IH [OF rest] ldf show ?case
    by simp
qed

lemma list_comp_read_Inr:
  "list_comp (pd_read_csv read_csv further) ps = Inr frames \<Longrightarrow>
     \<exists>ldf. map read_csv ps = map Inr ldf
           \<and> frames = map (\<lambda>parsed. \<lparr> columns = file_columns further, rows = parsed \<rparr>) ldf"
proof (induction ps arbitrary: frames)
  case Nil
  then show ?case by simp
next
  case (Cons p ps)
  from Cons.prems obtain f fs where f: "pd_read_csv read_csv further p = Inr f"
    and fs: "list_comp (pd_read_csv read_csv further) ps = Inr fs" and frames: "frames = f # fs"
    by (auto split: sum.splits)
  from f obtain parsed where p: "read_csv p = Inr parsed"
    and f': "f = \<lparr> columns = file_columns further, rows = parsed \<rparr>"
    by (auto simp: pd_read_csv_def split: sum.splits)
  from Cons.IH [OF fs] obtain rest where "map read_csv ps = map Inr rest"
    and "fs = map (\<lambda>parsed. \<lparr> columns = file_columns further, rows = parsed \<rparr>) rest"
    by blast
  with p f' frames have "map read_csv (p # ps) = map Inr (parsed # rest)
      \<and> frames = map (\<lambda>parsed. \<lparr> columns = file_columns further, rows = parsed \<rparr>) (parsed # rest)"
    by simp
  then show ?case
    by blast
qed

lemma list_comp_read_Inl:
  "list_comp (pd_read_csv read_csv further) ps = Inl e \<Longrightarrow> \<exists>m. e = Upstream m"
  by (induction ps) (auto simp: pd_read_csv_def split: sum.splits)

lemma reset_index_collision:
  "further ''index'' \<noteq> None \<Longrightarrow> further ''level_0'' \<noteq> None \<Longrightarrow>
     reset_index \<lparr> columns = file_columns further, rows = parsed \<rparr>
       = Inl (ValueError ''cannot insert level_0, already exists'')"
  by (auto simp: reset_index_def Let_def)

text \<open>
  Otherwise \<^verbatim>\<open>reset_index()\<close> leaves the columns of the file as they are, and the frame has
  a column \<^verbatim>\<open>index\<close>: the file's own if it has one, else the new one.
\<close>

lemma reset_index_file:
  assumes "further ''index'' = None \<or> further ''level_0'' = None"
  shows "\<exists>df. reset_index \<lparr> columns = file_columns further, rows = parsed \<rparr> = Inr df
           \<and> rows df = map (\<lambda>(i, r). (int i, r)) (enumerate 0 parsed)
           \<and> columns df ''id'' = Some (\<lambda>(i, r). row_id r)
           \<and> columns df ''text'' = Some (\<lambda>(i, r). row_text r)
           \<and> columns df ''label'' = Some (\<lambda>(i, r). row_label r)
           \<and> columns df ''index''
               = Some (case further ''index'' of None \<Rightarrow> (\<lambda>(i, r). PyInt i)
                                               | Some cell \<Rightarrow> (\<lambda>(i, r). cell r))"
  using assms by (auto simp: reset_index_def Let_def)

lemma yield_rows_cells:
  assumes "columns df ''id'' = Some id_cell"
      and "columns df ''text'' = Some text_cell"
      and "columns df ''label'' = Some label_cell"
  shows "yield_rows df
           = Inr (map (\<lambda>row. (id_cell row, \<lparr> ex_id = py_str (id_cell row), ex_text = text_cell row,
                                            ex_label = label_cell row \<rparr>)) (rows df))"
  using assms by (simp add: yield_rows_def)

lemma pairs_of_positions:
  "map (\<lambda>row. (key row, \<lparr> ex_id = py_str (key row), ex_text = (\<lambda>(i, r). row_text r) row,
                           ex_label = (\<lambda>(i, r). row_label r) row \<rparr>))
       (map (\<lambda>(i, r). (int i, r)) (enumerate n parsed))
   = map (\<lambda>(i, r). (key (int i, r), \<lparr> ex_id = py_str (key (int i, r)), ex_text = row_text r,
                                        ex_label = row_label r \<rparr>))
         (enumerate n parsed)"
  by (induction parsed arbitrary: n) simp_all

lemma pairs_of_rows:
  "map (\<lambda>(i, r). (cell r, \<lparr> ex_id = py_str (cell r), ex_text = row_text r,
                             ex_label = row_label r \<rparr>)) (enumerate n parsed)
   = map (\<lambda>r. (cell r, \<lparr> ex_id = py_str (cell r), ex_text = row_text r,
                          ex_label = row_label r \<rparr>)) parsed"
  by (induction parsed arbitrary: n) simp_all

lemma generate_examples_single:
  assumes "schema config = ''source'' \<or> schema config = ''seacrowd_text''"
      and "\<not> is_aggregate config"
      and "read_csv p = Inr parsed"
  shows "generate_examples read_csv further config (Path p)
           = (if further ''index'' \<noteq> None \<and> further ''level_0'' \<noteq> None
              then Inl (ValueError ''cannot insert level_0, already exists'')
              else Inr (map (\<lambda>r. (row_id r, \<lparr> ex_id = py_str (row_id r), ex_text = row_text r,
                                               ex_label = row_label r \<rparr>)) parsed))"
proof -
  from assms have run: "generate_examples read_csv further config (Path p)
      = (case reset_index \<lparr> columns = file_columns further, rows = parsed \<rparr> of
           Inl e \<Rightarrow> Inl e | Inr df \<Rightarrow> yield_rows df)"
    by (auto simp: generate_examples_def is_aggregate_def pd_read_csv_def)
  show ?thesis
  proof (cases "further ''index'' \<noteq> None \<and> further ''level_0'' \<noteq> None")
    case True
    with run show ?thesis
      by (simp add: reset_index_collision)
  next
    case False
    then have "further ''index'' = None \<or> further ''level_0'' = None"
      by simp
    from reset_index_file [OF this, of parsed] obtain df
      where reset: "reset_index \<lparr> columns = file_columns further, rows = parsed \<rparr> = Inr df"
        and rws: "rows df = map (\<lambda>(i, r). (int i, r)) (enumerate 0 parsed)"
        and cells: "columns df ''id'' = Some (\<lambda>(i, r). row_id r)"
          "columns df ''text'' = Some (\<lambda>(i, r). row_text r)"
          "columns df ''label'' = Some (\<lambda>(i, r). row_label r)"
      by blast
    have "yield_rows df
        = Inr (map (\<lambda>(i, r). (row_id r, \<lparr> ex_id = py_str (row_id r), ex_text = row_text r,
                                          ex_label = row_label r \<rparr>)) (enumerate 0 parsed))"
      using yield_rows_cells [OF cells] pairs_of_positions [of "\<lambda>(i, r). row_id r" 0 parsed]
      by (simp add: rws)
    with run reset False show ?thesis
      by (simp add: pairs_of_rows)
  qed
qed

lemma generate_examples_aggregate:
  assumes "schema config = ''source'' \<or> schema config = ''seacrowd_text''"
      and "is_aggregate config"
      and "ps \<noteq> []"
      and "map read_csv ps = map Inr ldf"
  shows "generate_examples read_csv further config (PathList ps)
           = (if further ''index'' \<noteq> None \<and> further ''level_0'' \<noteq> None
              then Inl (ValueError ''cannot insert level_0, already exists'')
              else Inr (map (\<lambda>(i, r).
                              (case further ''index'' of None \<Rightarrow> PyInt (int i) | Some cell \<Rightarrow> cell r,
                               \<lparr> ex_id = py_str (case further ''index'' of None \<Rightarrow> PyInt (int i)
                                                                       | Some cell \<Rightarrow> cell r),
                                 ex_text = row_text r, ex_label = row_label r \<rparr>))
                            (enumerate 0 (concat ldf))))"
proof -
  let ?mk = "\<lambda>parsed. \<lparr> columns = file_columns further, rows = parsed \<rparr>"
  from assms(3,4) have "ldf \<noteq> []"
    by auto
  then have "pd_concat (map ?mk ldf) = Inr (?mk (concat ldf))"
    by (cases ldf) (simp_all add: pd_concat_def comp_def)
  with assms(1,2) list_comp_read_all [OF assms(4), of further]
  have run: "generate_examples read_csv further config (PathList ps)
      = (case reset_index (?mk (concat ldf)) of
           Inl e \<Rightarrow> Inl e
         | Inr indexed \<Rightarrow>
             (case drop_column ''id'' indexed of
                Inl e \<Rightarrow> Inl e
              | Inr dropped \<Rightarrow> yield_rows (rename_column ''index'' ''id'' dropped)))"
    by (auto simp: generate_examples_def is_aggregate_def)
  show ?thesis
  proof (cases "further ''index'' \<noteq> None \<and> further ''level_0'' \<noteq> None")
    case True
    with run show ?thesis
      by (simp add: reset_index_collision)
  next
    case False
    then have "further ''index'' = None \<or> further ''level_0'' = None"
      by simp
    from reset_index_file [OF this, of "concat ldf"] obtain df
      where reset: "reset_index (?mk (concat ldf)) = Inr df"
        and rws: "rows df = map (\<lambda>(i, r). (int i, r)) (enumerate 0 (concat ldf))"
        and cells: "columns df ''id'' = Some (\<lambda>(i, r). row_id r)"
          "columns df ''text'' = Some (\<lambda>(i, r). row_text r)"
          "columns df ''label'' = Some (\<lambda>(i, r). row_label r)"
          "columns df ''index''
             = Some (case further ''index'' of None \<Rightarrow> (\<lambda>(i, r). PyInt i)
                                             | Some cell \<Rightarrow> (\<lambda>(i, r). cell r))"
      by blast
    let ?key = "case further ''index'' of None \<Rightarrow> (\<lambda>(i, r). PyInt i)
                                        | Some cell \<Rightarrow> (\<lambda>(i, r). cell r)"
    let ?final = "rename_column ''index'' ''id'' (df \<lparr> columns := (columns df)(''id'' := None) \<rparr>)"
    from cells have dropped: "drop_column ''id'' df = Inr (df \<lparr> columns := (columns df)(''id'' := None) \<rparr>)"
      by (simp add: drop_column_def)
    from cells have final: "columns ?final ''id'' = Some ?key"
      "columns ?final ''text'' = Some (\<lambda>(i, r). row_text r)"
      "columns ?final ''label'' = Some (\<lambda>(i, r). row_label r)"
      by (simp_all add: rename_column_def)
    have "rows ?final = map (\<lambda>(i, r). (int i, r)) (enumerate 0 (concat ldf))"
      using cells by (simp add: rename_column_def rws)
    with yield_rows_cells [OF final] pairs_of_positions [of ?key 0 "concat ldf"]
    have "yield_rows ?final
        = Inr (map (\<lambda>(i, r). (?key (int i, r), \<lparr> ex_id = py_str (?key (int i, r)),
                                                 ex_text = row_text r, ex_label = row_label r \<rparr>))
                   (enumerate 0 (concat ldf)))"
      by simp
    moreover have "?key (int i, r)
        = (case further ''index'' of None \<Rightarrow> PyInt (int i) | Some cell \<Rightarrow> cell r)" for i r
      by (simp split: option.split)
    ultimately show ?thesis
      using run reset dropped False by simp
  qed
qed

lemma map_fst_reindexed:
  "map fst (map (\<lambda>(i, r). (g i, h i r)) (enumerate n xs)) = map g [n..<n + length xs]"
proof -
  have "map fst (map (\<lambda>(i, r). (g i, h i r)) (enumerate n xs)) = map (g \<circ> fst) (enumerate n xs)"
    by (simp add: comp_def case_prod_beta)
  also have "\<dots> = map g (map fst (enumerate n xs))"
    by (simp only: map_map)
  also have "\<dots> = map g [n..<n + length xs]"
    by (simp only: map_fst_enumerate)
  finally show ?thesis .
qed

lemma str_split_nonempty: "str_split sep s \<noteq> []"
  by (induction s) (auto split: list.splits)

lemma str_split_piece:
  "sep \<notin> set a \<Longrightarrow> str_split sep (a @ sep # rest) = a # str_split sep rest"
  by (induction a) (auto split: list.splits simp: str_split_nonempty)

lemma str_split_last_piece: "sep \<notin> set a \<Longrightarrow> str_split sep a = [a]"
  by (induction a) (auto split: list.splits)

lemma make_Version_1_0_0:
  "make_Version ''1.0.0'' = Inr \<lparr> version_str = ''1.0.0'', major = 1, minor = 0, patch = 0 \<rparr>"
  by (simp add: make_Version_def is_digits_def nat_of_digits_def)

text \<open>A constructed configuration bears an all-languages name exactly when no language was given.\<close>

lemma constructor_is_aggregate:
  "seacrowd_config_constructor lang schema_name v = Inr config \<Longrightarrow>
     is_aggregate config \<longleftrightarrow> lang = ''''"
  by (auto simp: seacrowd_config_constructor_def new_SEACrowdConfig_def
        INVALID_WINDOWS_CHARACTERS_IN_PATH_def is_aggregate_def split: if_splits sum.splits)

lemma constructor_schema:
  "seacrowd_config_constructor lang schema_name v = Inr config \<Longrightarrow>
     schema config = schema_name \<and> (schema_name = ''source'' \<or> schema_name = ''seacrowd_text'')"
  by (auto simp: seacrowd_config_constructor_def new_SEACrowdConfig_def
        INVALID_WINDOWS_CHARACTERS_IN_PATH_def split: if_splits sum.splits)

lemma constructor_name:
  "seacrowd_config_constructor lang schema_name v = Inr config \<Longrightarrow> lang \<noteq> '''' \<Longrightarrow>
     name config = ''nusaparagraph_emot_'' @ lang @ ''_'' @ schema_name"
  by (auto simp: seacrowd_config_constructor_def new_SEACrowdConfig_def
        INVALID_WINDOWS_CHARACTERS_IN_PATH_def split: if_splits sum.splits)

lemma language_codes_plain:
  "lang \<in> set language_codes \<Longrightarrow> lang \<noteq> '''' \<and> CHR ''_'' \<notin> set lang"
  by (auto simp: language_codes_def LANGUAGES_MAP_def)

text \<open>The third piece of a single-language configuration's name is its language code.\<close>

lemma name_pieces:
  assumes "CHR ''_'' \<notin> set lang"
  shows "str_split CHR ''_'' (''nusaparagraph_emot_'' @ lang @ ''_'' @ schema_name)
           = ''nusaparagraph'' # ''emot'' # lang # str_split CHR ''_'' schema_name"
proof -
  have "str_split CHR ''_''
          (''nusaparagraph'' @ CHR ''_'' # (''emot'' @ CHR ''_'' # (lang @ CHR ''_'' # schema_name)))
        = ''nusaparagraph''
            # str_split CHR ''_'' (''emot'' @ CHR ''_'' # (lang @ CHR ''_'' # schema_name))"
    by (rule str_split_piece) simp
  also have "str_split CHR ''_'' (''emot'' @ CHR ''_'' # (lang @ CHR ''_'' # schema_name))
        = ''emot'' # str_split CHR ''_'' (lang @ CHR ''_'' # schema_name)"
    by (rule str_split_piece) simp
  also have "str_split CHR ''_'' (lang @ CHR ''_'' # schema_name)
        = lang # str_split CHR ''_'' schema_name"
    using assms by (rule str_split_piece)
  finally show ?thesis
    by simp
qed

lemma split_generators_aggregate:
  "is_aggregate config \<Longrightarrow>
     split_generators download_and_extract config
       = Inr (map (\<lambda>split. (split, PathList (map (\<lambda>lang. download_and_extract (URLS split lang))
                                                language_codes)))
                  [TRAIN, VALIDATION, TEST])"
  by (simp add: split_generators_def is_aggregate_def Let_def comp_def)

lemma split_generators_single:
  assumes "seacrowd_config_constructor lang schema_name v = Inr config"
      and "lang \<noteq> ''''" and "CHR ''_'' \<notin> set lang"
  shows "split_generators download_and_extract config
           = Inr (map (\<lambda>split. (split, Path (download_and_extract (URLS split lang))))
                      [TRAIN, VALIDATION, TEST])"
proof -
  from assms have "\<not> is_aggregate config"
    by (simp add: constructor_is_aggregate)
  moreover have "str_split CHR ''_'' (name config)
      = ''nusaparagraph'' # ''emot'' # lang # str_split CHR ''_'' schema_name"
    using constructor_name [OF assms(1,2)] name_pieces [OF assms(3)] by simp
  ultimately show ?thesis
    by (simp add: split_generators_def is_aggregate_def Let_def)
qed

text \<open>
  Emission looks at the configuration only to check its schema and to tell an all-languages
  name from any other.
\<close>

lemma generate_examples_config:
  assumes "schema c1 = ''source'' \<or> schema c1 = ''seacrowd_text''"
      and "schema c2 = ''source'' \<or> schema c2 = ''seacrowd_text''"
      and "is_aggregate c1 \<longleftrightarrow> is_aggregate c2"
  shows "generate_examples read_csv further c1 filepath
           = generate_examples read_csv further c2 filepath"
  using assms by (auto simp: generate_examples_def is_aggregate_def)

text \<open>The failures of the frame operations and of the loop are not the invalid-configuration error.\<close>

lemma reset_index_Inl:
  "reset_index df = Inl e \<Longrightarrow> \<exists>c. e = ValueError (''cannot insert '' @ c)"
  by (auto simp: reset_index_def Let_def split: if_splits)

lemma drop_column_Inl: "drop_column c df = Inl e \<Longrightarrow> \<exists>m. e = KeyError m"
  by (auto simp: drop_column_def split: if_splits)

lemma yield_rows_Inl: "yield_rows df = Inl e \<Longrightarrow> \<exists>m. e = AttributeError m"
  by (auto simp: yield_rows_def no_attribute_def split: if_splits option.splits)

lemma pd_concat_Inl: "pd_concat ldf = Inl e \<Longrightarrow> e = ValueError ''No objects to concatenate''"
  by (auto simp: pd_concat_def split: list.splits)

lemma pd_read_csv_Inl: "pd_read_csv read_csv further p = Inl e \<Longrightarrow> \<exists>m. e = Upstream m"
  by (auto simp: pd_read_csv_def split: sum.splits)

lemma yield_rows_key:
  "yield_rows df = Inr ys \<Longrightarrow> (key, ex) \<in> set ys \<Longrightarrow> ex_id ex = py_str key"
  by (auto simp: yield_rows_def split: if_splits option.splits)

text \<open>A run that yields has read every file it was given.\<close>

lemma generate_examples_Inr:
  assumes "generate_examples read_csv further config filepath = Inr ys"
  shows "(schema config = ''source'' \<or> schema config = ''seacrowd_text'')
       \<and> ((\<exists>p parsed. filepath = Path p \<and> \<not> is_aggregate config \<and> read_csv p = Inr parsed)
          \<or> (\<exists>ps ldf. filepath = PathList ps \<and> is_aggregate config \<and> ps \<noteq> []
                      \<and> map read_csv ps = map Inr ldf))"
proof -
  from assms have valid: "schema config = ''source'' \<or> schema config = ''seacrowd_text''"
    by (auto simp: generate_examples_def split: if_splits)
  show ?thesis
  proof (cases filepath)
    case (Path p)
    with assms valid have "\<not> is_aggregate config"
      by (auto simp: generate_examples_def is_aggregate_def split: if_splits)
    moreover from assms valid Path this obtain parsed where "read_csv p = Inr parsed"
      by (auto simp: generate_examples_def is_aggregate_def pd_read_csv_def
               split: if_splits sum.splits)
    ultimately show ?thesis
      using valid Path by blast
  next
    case (PathList ps)
    with assms valid have agg: "is_aggregate config"
      by (auto simp: generate_examples_def is_aggregate_def split: if_splits)
    with assms valid PathList obtain frames
      where read: "list_comp (pd_read_csv read_csv further) ps = Inr frames"
        and "pd_concat frames \<noteq> Inl (ValueError ''No objects to concatenate'')"
      by (auto simp: generate_examples_def is_aggregate_def split: if_splits sum.splits
               dest: pd_concat_Inl)
    then have "frames \<noteq> []"
      by (auto simp: pd_concat_def)
    with read have "ps \<noteq> []"
      by auto
    moreover from list_comp_read_Inr [OF read] obtain ldf where "map read_csv ps = map Inr ldf"
      by blast
    ultimately show ?thesis
      using valid agg PathList by blast
  qed
qed

lemma in_promoted:
  assumes "(key, ex) \<in> set (map (\<lambda>(i, r). (k i r, \<lparr> ex_id = py_str (k i r),
                                    ex_text = row_text r, ex_label = row_label r \<rparr>))
                      (enumerate n df))"
  shows "\<exists>r \<in> set df. ex_text ex = row_text r \<and> ex_label ex = row_label r"
proof -
  from assms obtain i r where ir: "(i, r) \<in> set (enumerate n df)"
    and ex: "ex = \<lparr> ex_id = py_str (k i r), ex_text = row_text r, ex_label = row_label r \<rparr>"
    by auto
  from ir have "r \<in> set df"
    by (auto simp: enumerate_eq_zip dest: set_zip_rightD)
  with ex show ?thesis
    by auto
qed

text \<open>Every yielded record takes its text and its label from a row of a file that was read.\<close>

lemma yielded_from_rows:
  assumes run: "generate_examples read_csv further config filepath = Inr ys"
      and mem: "(key, ex) \<in> set ys"
  shows "\<exists>p \<in> set (filepath_list filepath). \<exists>parsed. read_csv p = Inr parsed
           \<and> (\<exists>r \<in> set parsed. ex_text ex = row_text r \<and> ex_label ex = row_label r)"
proof -
  from generate_examples_Inr [OF run]
  have valid: "schema config = ''source'' \<or> schema config = ''seacrowd_text''"
    and shape: "(\<exists>p parsed. filepath = Path p \<and> \<not> is_aggregate config \<and> read_csv p = Inr parsed)
          \<or> (\<exists>ps ldf. filepath = PathList ps \<and> is_aggregate config \<and> ps \<noteq> []
                      \<and> map read_csv ps = map Inr ldf)"
    by blast+
  from shape show ?thesis
  proof
    assume "\<exists>p parsed. filepath = Path p \<and> \<not> is_aggregate config \<and> read_csv p = Inr parsed"
    then obtain p parsed where fp: "filepath = Path p" and single: "\<not> is_aggregate config"
      and rd: "read_csv p = Inr parsed"
      by blast
    from run generate_examples_single
               [where read_csv = read_csv and p = p and further = further, OF valid single rd]
    have "ys = map (\<lambda>r. (row_id r, \<lparr> ex_id = py_str (row_id r), ex_text = row_text r,
                                      ex_label = row_label r \<rparr>)) parsed"
      unfolding fp by (simp split: if_splits)
    with mem obtain r where "r \<in> set parsed"
      and "ex_text ex = row_text r \<and> ex_label ex = row_label r"
      by auto
    with rd fp show ?thesis
      by auto
  next
    assume "\<exists>ps ldf. filepath = PathList ps \<and> is_aggregate config \<and> ps \<noteq> []
                      \<and> map read_csv ps = map Inr ldf"
    then obtain ps ldf where fp: "filepath = PathList ps" and agg: "is_aggregate config"
      and nonempty: "ps \<noteq> []" and rd: "map read_csv ps = map Inr ldf"
      by blast
    from run generate_examples_aggregate [OF valid agg nonempty rd, of further]
    have ys: "ys = map (\<lambda>(i, r).
                      (case further ''index'' of None \<Rightarrow> PyInt (int i) | Some cell \<Rightarrow> cell r,
                       \<lparr> ex_id = py_str (case further ''index'' of None \<Rightarrow> PyInt (int i)
                                                               | Some cell \<Rightarrow> cell r),
                         ex_text = row_text r, ex_label = row_label r \<rparr>))
                    (enumerate 0 (concat ldf))"
      unfolding fp by (simp split: if_splits)
    from in_promoted [OF mem [unfolded ys]] obtain r where r: "r \<in> set (concat ldf)"
      and copied: "ex_text ex = row_text r \<and> ex_label ex = row_label r"
      by blast
    from r obtain f where "f \<in> set ldf" and rf: "r \<in> set f"
      by auto
    then have "Inr f \<in> set (map read_csv ps)"
      by (simp add: rd)
    then obtain p where p: "p \<in> set ps" and rdp: "read_csv p = Inr f"
      by auto
    have "p \<in> set (filepath_list filepath)"
      using p fp by simp
    with rdp rf copied show ?thesis
      by blast
  qed
qed

subsection \<open>Configuration construction\<close>

text \<open>
  C5, as the code has it: constructing a configuration with a schema name other than
  \<^verbatim>\<open>source\<close> and \<^verbatim>\<open>seacrowd_text\<close> raises the invalid-schema error (a \<^verbatim>\<open>ValueError\<close> with the
  message \<^verbatim>\<open>Invalid schema: ...\<close>), whatever the language and the version; with either of
  the two names the constructor returns a configuration, which carries that schema and
  the version, provided the framework's version object accepts the version string and
  the language has none of the characters the framework refuses in a configuration name.
\<close>

theorem constructor_schema_check:
  "(schema_name \<noteq> ''source'' \<and> schema_name \<noteq> ''seacrowd_text'' \<longrightarrow>
      seacrowd_config_constructor lang schema_name v
        = Inl (ValueError (''Invalid schema: '' @ schema_name)))
   \<and> ((schema_name = ''source'' \<or> schema_name = ''seacrowd_text'') \<and> make_Version v = Inr ver
        \<and> list_all (\<lambda>c. c \<notin> set INVALID_WINDOWS_CHARACTERS_IN_PATH) lang \<longrightarrow>
      (\<exists>config. seacrowd_config_constructor lang schema_name v = Inr config
                \<and> schema config = schema_name \<and> version config = ver))"
  by (auto simp: seacrowd_config_constructor_def new_SEACrowdConfig_def
        INVALID_WINDOWS_CHARACTERS_IN_PATH_def list_all_iff)

theorem constructor_schema_check_witness:
  "seacrowd_config_constructor ''jav'' ''raw'' ''1.0.0'' = Inl (ValueError ''Invalid schema: raw'')
   \<and> make_Version ''1.0.0'' = Inr \<lparr> version_str = ''1.0.0'', major = 1, minor = 0, patch = 0 \<rparr>
   \<and> list_all (\<lambda>c. c \<notin> set INVALID_WINDOWS_CHARACTERS_IN_PATH) ''jav''
   \<and> (\<exists>config. seacrowd_config_constructor ''jav'' ''seacrowd_text'' ''1.0.0'' = Inr config
               \<and> schema config = ''seacrowd_text''
               \<and> version config = \<lparr> version_str = ''1.0.0'', major = 1, minor = 0, patch = 0 \<rparr>)"
proof -
  have plain: "list_all (\<lambda>c. c \<notin> set INVALID_WINDOWS_CHARACTERS_IN_PATH) ''jav''"
    by (simp add: INVALID_WINDOWS_CHARACTERS_IN_PATH_def)
  from constructor_schema_check
         [where schema_name = "''raw''" and lang = "''jav''" and v = "''1.0.0''"]
       constructor_schema_check
         [where schema_name = "''seacrowd_text''" and lang = "''jav''" and v = "''1.0.0''"
            and ver = "\<lparr> version_str = ''1.0.0'', major = 1, minor = 0, patch = 0 \<rparr>"]
       make_Version_1_0_0 plain
  show ?thesis
    by simp
qed

text \<open>
  C5 as stated fails: with the recognized schema \<^verbatim>\<open>source\<close> and the version string
  \<^verbatim>\<open>abc\<close>, the constructor raises the \<^verbatim>\<open>ValueError\<close> of the framework's version object.
\<close>

theorem constructor_invalid_version_counterexample:
  "seacrowd_config_constructor ''jav'' ''source'' ''abc''
     = Inl (ValueError (''Invalid version '' @ [CHR 0x27] @ ''abc'' @ [CHR 0x27]
                          @ ''. Format should be x.y.z with {x,y,z} being digits.''))"
  by (simp add: seacrowd_config_constructor_def new_SEACrowdConfig_def
        INVALID_WINDOWS_CHARACTERS_IN_PATH_def make_Version_def is_digits_def)

subsection \<open>Example emission\<close>

text \<open>
  C6: example emission raises the invalid-configuration error (a \<^verbatim>\<open>ValueError\<close> with the
  message \<^verbatim>\<open>Invalid config: \<close> and the configuration's name), having yielded nothing,
  if and only if the configuration's schema is neither \<^verbatim>\<open>source\<close> nor \<^verbatim>\<open>seacrowd_text\<close>.
\<close>

theorem generate_examples_invalid_config:
  "generate_examples read_csv further config filepath
       = Inl (ValueError (''Invalid config: '' @ name config))
     \<longleftrightarrow> schema config \<noteq> ''source'' \<and> schema config \<noteq> ''seacrowd_text''"
proof
  assume "schema config \<noteq> ''source'' \<and> schema config \<noteq> ''seacrowd_text''"
  then show "generate_examples read_csv further config filepath
               = Inl (ValueError (''Invalid config: '' @ name config))"
    by (simp add: generate_examples_def)
next
  assume raised: "generate_examples read_csv further config filepath
                    = Inl (ValueError (''Invalid config: '' @ name config))"
  show "schema config \<noteq> ''source'' \<and> schema config \<noteq> ''seacrowd_text''"
  proof (rule ccontr)
    assume "\<not> (schema config \<noteq> ''source'' \<and> schema config \<noteq> ''seacrowd_text'')"
    with raised show False
      by (auto simp: generate_examples_def
               split: if_splits filepath.splits sum.splits
               dest: list_comp_read_Inl pd_read_csv_Inl pd_concat_Inl reset_index_Inl
                     drop_column_Inl yield_rows_Inl)
  qed
qed

text \<open>
  C10: every pair the emission yields has, as the record's \<^verbatim>\<open>id\<close>, the string form of its
  key, for a single file and for a list of files alike.
\<close>

theorem yielded_id_is_str_of_key:
  "generate_examples read_csv further config filepath = Inr ys \<Longrightarrow> (key, ex) \<in> set ys \<Longrightarrow>
     ex_id ex = py_str key"
  by (auto simp: generate_examples_def
           split: if_splits filepath.splits sum.splits dest: yield_rows_key)

theorem yielded_id_is_str_of_key_witness:
  "generate_examples (\<lambda>p. Inr rows_a) Map.empty all_seacrowd_text (PathList [''f1'', ''f2''])
     = Inr [(PyInt 0, \<lparr> ex_id = ''0'', ex_text = PyStr ''a'', ex_label = PyStr ''happy'' \<rparr>),
            (PyInt 1, \<lparr> ex_id = ''1'', ex_text = PyStr ''b'', ex_label = PyStr ''sad'' \<rparr>),
            (PyInt 2, \<lparr> ex_id = ''2'', ex_text = PyStr ''a'', ex_label = PyStr ''happy'' \<rparr>),
            (PyInt 3, \<lparr> ex_id = ''3'', ex_text = PyStr ''b'', ex_label = PyStr ''sad'' \<rparr>)]
   \<and> ex_id \<lparr> ex_id = ''3'', ex_text = PyStr ''b'', ex_label = PyStr ''sad'' \<rparr> = py_str (PyInt 3)"
proof -
  have run: "generate_examples (\<lambda>p. Inr rows_a) Map.empty all_seacrowd_text
               (PathList [''f1'', ''f2''])
     = Inr [(PyInt 0, \<lparr> ex_id = ''0'', ex_text = PyStr ''a'', ex_label = PyStr ''happy'' \<rparr>),
            (PyInt 1, \<lparr> ex_id = ''1'', ex_text = PyStr ''b'', ex_label = PyStr ''sad'' \<rparr>),
            (PyInt 2, \<lparr> ex_id = ''2'', ex_text = PyStr ''a'', ex_label = PyStr ''happy'' \<rparr>),
            (PyInt 3, \<lparr> ex_id = ''3'', ex_text = PyStr ''b'', ex_label = PyStr ''sad'' \<rparr>)]"
    by (simp add: generate_examples_def all_seacrowd_text_def rows_a_def pd_read_csv_def
          pd_concat_def reset_index_def drop_column_def rename_column_def yield_rows_def
          file_columns_def enumerate_eq_zip upt_rec str_int_def str_nat.simps digit_char_def)
  from yielded_id_is_str_of_key [OF run, of "PyInt 3"
         "\<lparr> ex_id = ''3'', ex_text = PyStr ''b'', ex_label = PyStr ''sad'' \<rparr>"] run
  show ?thesis by simp
qed

text \<open>
  C1, as the code has it: for the configuration of one registered language and every split,
  the emission yields one pair per row of that language's split file, in file order; the
  key is the row's own \<^verbatim>\<open>id\<close> cell (the column that \<^verbatim>\<open>reset_index()\<close> adds is never read) and
  the record's \<^verbatim>\<open>id\<close> is its string form. The keys are therefore \<open>0, ..., N - 1\<close> exactly
  when the file's \<^verbatim>\<open>id\<close> column is. The one exception is a file that has both a column
  \<^verbatim>\<open>index\<close> and a column \<^verbatim>\<open>level_0\<close>: there \<^verbatim>\<open>reset_index()\<close> raises and nothing is yielded.
\<close>

theorem single_language_ids_from_file:
  assumes "lang \<in> set language_codes"
      and "seacrowd_config_constructor lang schema_name v = Inr config"
      and "split_generators download_and_extract config = Inr gens"
      and "(split, filepath) \<in> set gens"
      and "read_csv (download_and_extract (URLS split lang)) = Inr parsed"
  shows "\<exists>ys. ys = map (\<lambda>r. (row_id r, \<lparr> ex_id = py_str (row_id r), ex_text = row_text r,
                                            ex_label = row_label r \<rparr>)) parsed
            \<and> generate_examples read_csv further config filepath
                = (if further ''index'' \<noteq> None \<and> further ''level_0'' \<noteq> None
                   then Inl (ValueError ''cannot insert level_0, already exists'')
                   else Inr ys)
            \<and> map fst ys = map row_id parsed
            \<and> (contiguous_ids ys
                 \<longleftrightarrow> map row_id parsed = map (\<lambda>i. PyInt (int i)) [0..<length parsed])"
proof -
  from assms(1) have plain: "lang \<noteq> ''''" "CHR ''_'' \<notin> set lang"
    by (simp_all add: language_codes_plain)
  have "gens = map (\<lambda>split. (split, Path (download_and_extract (URLS split lang))))
                   [TRAIN, VALIDATION, TEST]"
    using split_generators_single [OF assms(2) plain, of download_and_extract] assms(3)
    by simp
  with assms(4) have fp: "filepath = Path (download_and_extract (URLS split lang))"
    by auto
  from assms(2) plain have single: "\<not> is_aggregate config"
    by (simp add: constructor_is_aggregate)
  from assms(2) have valid: "schema config = ''source'' \<or> schema config = ''seacrowd_text''"
    by (auto dest: constructor_schema)
  have "generate_examples read_csv further config filepath
          = (if further ''index'' \<noteq> None \<and> further ''level_0'' \<noteq> None
             then Inl (ValueError ''cannot insert level_0, already exists'')
             else Inr (map (\<lambda>r. (row_id r, \<lparr> ex_id = py_str (row_id r), ex_text = row_text r,
                                              ex_label = row_label r \<rparr>)) parsed))"
    unfolding fp
    by (rule generate_examples_single
          [where read_csv = read_csv and p = "download_and_extract (URLS split lang)",
           OF valid single assms(5)])
  then show ?thesis
    by (simp add: contiguous_ids_def comp_def)
qed

theorem single_language_ids_from_file_witness:
  "''jav'' \<in> set language_codes
   \<and> seacrowd_config_constructor ''jav'' ''source'' SOURCE_VERSION = Inr jav_source
   \<and> (TRAIN, Path (URLS TRAIN ''jav'')) \<in> set (projr (split_generators (\<lambda>url. url) jav_source))
   \<and> generate_examples (\<lambda>p. Inr rows_b) Map.empty jav_source (Path (URLS TRAIN ''jav''))
       = Inr [(PyInt 0, \<lparr> ex_id = ''0'', ex_text = PyStr ''c'', ex_label = PyStr ''fear'' \<rparr>),
              (PyInt 1, \<lparr> ex_id = ''1'', ex_text = PyStr ''d'', ex_label = PyStr ''angry'' \<rparr>),
              (PyInt 2, \<lparr> ex_id = ''2'', ex_text = PyStr ''e'', ex_label = PyStr ''shame'' \<rparr>)]"
proof -
  have lang: "''jav'' \<in> set language_codes"
    by (simp add: language_codes_def LANGUAGES_MAP_def)
  have cfg: "seacrowd_config_constructor ''jav'' ''source'' SOURCE_VERSION = Inr jav_source"
    by (simp add: seacrowd_config_constructor_def new_SEACrowdConfig_def
        INVALID_WINDOWS_CHARACTERS_IN_PATH_def jav_source_def SOURCE_VERSION_def
          make_Version_1_0_0)
  have gens: "split_generators (\<lambda>url. url) jav_source
                = Inr (map (\<lambda>split. (split, Path (URLS split ''jav''))) [TRAIN, VALIDATION, TEST])"
    by (simp add: split_generators_def jav_source_def Let_def)
  have mem: "(TRAIN, Path (URLS TRAIN ''jav''))
               \<in> set (map (\<lambda>split. (split, Path (URLS split ''jav''))) [TRAIN, VALIDATION, TEST])"
    by simp
  have rd: "(\<lambda>p. Inr rows_b) (URLS TRAIN ''jav'') = (Inr rows_b :: string + csv_row list)"
    by simp
  from single_language_ids_from_file
         [where read_csv = "\<lambda>p. Inr rows_b" and parsed = rows_b and further = Map.empty,
          OF lang cfg gens mem rd]
  have "generate_examples (\<lambda>p. Inr rows_b) Map.empty jav_source (Path (URLS TRAIN ''jav''))
          = Inr (map (\<lambda>r. (row_id r, \<lparr> ex_id = py_str (row_id r), ex_text = row_text r,
                                          ex_label = row_label r \<rparr>)) rows_b)"
    by simp
  then have "generate_examples (\<lambda>p. Inr rows_b) Map.empty jav_source (Path (URLS TRAIN ''jav''))
       = Inr [(PyInt 0, \<lparr> ex_id = ''0'', ex_text = PyStr ''c'', ex_label = PyStr ''fear'' \<rparr>),
              (PyInt 1, \<lparr> ex_id = ''1'', ex_text = PyStr ''d'', ex_label = PyStr ''angry'' \<rparr>),
              (PyInt 2, \<lparr> ex_id = ''2'', ex_text = PyStr ''e'', ex_label = PyStr ''shame'' \<rparr>)]"
    by (simp add: rows_b_def str_int_def str_nat.simps digit_char_def)
  with lang cfg gens mem show ?thesis
    by simp
qed

text \<open>
  C1 as stated fails: for the \<^verbatim>\<open>jav\<close> source configuration and a split file whose rows
  carry the ids 5 and 9, the emission yields the keys 5 and 9, not 0 and 1.
\<close>

theorem single_language_ids_counterexample:
  "seacrowd_config_constructor ''jav'' ''source'' SOURCE_VERSION = Inr jav_source
   \<and> (case generate_examples (\<lambda>p. Inr rows_a) Map.empty jav_source (Path (URLS TRAIN ''jav'')) of
        Inl e \<Rightarrow> False
      | Inr ys \<Rightarrow>
          ys = [(PyInt 5, \<lparr> ex_id = ''5'', ex_text = PyStr ''a'', ex_label = PyStr ''happy'' \<rparr>),
                (PyInt 9, \<lparr> ex_id = ''9'', ex_text = PyStr ''b'', ex_label = PyStr ''sad'' \<rparr>)]
          \<and> \<not> contiguous_ids ys)"
  by (simp add: seacrowd_config_constructor_def new_SEACrowdConfig_def
        INVALID_WINDOWS_CHARACTERS_IN_PATH_def jav_source_def SOURCE_VERSION_def
        make_Version_1_0_0 generate_examples_def pd_read_csv_def rows_a_def reset_index_def
        yield_rows_def file_columns_def enumerate_eq_zip upt_rec
        contiguous_ids_def str_int_def str_nat.simps digit_char_def)

text \<open>
  C2, as the code has it: for an all-languages configuration and every split, when the
  split files have no column of their own named \<^verbatim>\<open>index\<close> and each of the ten files is
  read, the emission yields the rows of the files in the order of the language table and,
  within a file, in file order; the files' own \<^verbatim>\<open>id\<close> cells are not used; and the keys
  are exactly \<open>0, ..., M - 1\<close>, where \<open>M\<close> is the number of rows of the ten files together.
\<close>

theorem aggregate_rows_reindexed:
  assumes "seacrowd_config_constructor '''' schema_name v = Inr config"
      and "split_generators download_and_extract config = Inr gens"
      and "(split, filepath) \<in> set gens"
      and "\<forall>lang \<in> set language_codes.
             read_csv (download_and_extract (URLS split lang)) = Inr (rows_of lang)"
      and "further ''index'' = None"
  shows "\<exists>ys. generate_examples read_csv further config filepath = Inr ys
            \<and> map snd ys
                = map (\<lambda>(i, r). \<lparr> ex_id = str_int (int i), ex_text = row_text r,
                                     ex_label = row_label r \<rparr>)
                      (enumerate 0 (concat (map rows_of language_codes)))
            \<and> map fst ys
                = map (\<lambda>i. PyInt (int i)) [0..<(\<Sum>lang\<leftarrow>language_codes. length (rows_of lang))]
            \<and> length language_codes = 10"
proof -
  let ?ps = "map (\<lambda>lang. download_and_extract (URLS split lang)) language_codes"
  let ?rows = "concat (map rows_of language_codes)"
  from assms(1) have agg: "is_aggregate config"
    by (simp add: constructor_is_aggregate)
  from assms(1) have valid: "schema config = ''source'' \<or> schema config = ''seacrowd_text''"
    by (auto dest: constructor_schema)
  from assms(2) have "gens = map (\<lambda>split. (split, PathList
        (map (\<lambda>lang. download_and_extract (URLS split lang)) language_codes)))
        [TRAIN, VALIDATION, TEST]"
    by (simp add: split_generators_aggregate [OF agg])
  with assms(3) have fp: "filepath = PathList ?ps"
    by auto
  have ten: "length language_codes = 10"
    by (simp add: language_codes_def LANGUAGES_MAP_def)
  then have nonempty: "?ps \<noteq> []"
    by auto
  from assms(4) have reads: "map read_csv ?ps = map Inr (map rows_of language_codes)"
    by simp
  have run: "generate_examples read_csv further config filepath
      = Inr (map (\<lambda>(i, r). (PyInt (int i), \<lparr> ex_id = py_str (PyInt (int i)),
                                               ex_text = row_text r, ex_label = row_label r \<rparr>))
                 (enumerate 0 ?rows))"
    unfolding fp
    using generate_examples_aggregate [OF valid agg nonempty reads, of further] assms(5)
    by simp
  have keys: "map fst (map (\<lambda>(i, r). (PyInt (int i), \<lparr> ex_id = py_str (PyInt (int i)),
                                               ex_text = row_text r, ex_label = row_label r \<rparr>))
                 (enumerate 0 ?rows))
              = map (\<lambda>i. PyInt (int i)) [0..<length ?rows]"
    using map_fst_reindexed [of "\<lambda>i. PyInt (int i)" _ 0 ?rows] by simp
  have total: "length ?rows = (\<Sum>lang\<leftarrow>language_codes. length (rows_of lang))"
    by (simp add: length_concat comp_def)
  have recs: "map snd (map (\<lambda>(i, r). (PyInt (int i), \<lparr> ex_id = py_str (PyInt (int i)),
                                               ex_text = row_text r, ex_label = row_label r \<rparr>))
                 (enumerate 0 ?rows))
              = map (\<lambda>(i, r). \<lparr> ex_id = str_int (int i), ex_text = row_text r,
                                  ex_label = row_label r \<rparr>) (enumerate 0 ?rows)"
    by (simp add: comp_def case_prod_beta)
  from run keys recs total ten show ?thesis
    by (simp only: sum.inject simp_thms ex_simps)
qed

theorem aggregate_rows_reindexed_witness:
  "seacrowd_config_constructor '''' ''source'' SOURCE_VERSION = Inr all_source
   \<and> (TRAIN, PathList (map (URLS TRAIN) language_codes))
        \<in> set (projr (split_generators (\<lambda>url. url) all_source))
   \<and> generate_examples (read_a_b (URLS TRAIN ''btk'') (URLS TRAIN ''bew'')) Map.empty all_source
         (PathList (map (URLS TRAIN) language_codes))
       = Inr [(PyInt 0, \<lparr> ex_id = ''0'', ex_text = PyStr ''a'', ex_label = PyStr ''happy'' \<rparr>),
              (PyInt 1, \<lparr> ex_id = ''1'', ex_text = PyStr ''b'', ex_label = PyStr ''sad'' \<rparr>),
              (PyInt 2, \<lparr> ex_id = ''2'', ex_text = PyStr ''c'', ex_label = PyStr ''fear'' \<rparr>),
              (PyInt 3, \<lparr> ex_id = ''3'', ex_text = PyStr ''d'', ex_label = PyStr ''angry'' \<rparr>),
              (PyInt 4, \<lparr> ex_id = ''4'', ex_text = PyStr ''e'', ex_label = PyStr ''shame'' \<rparr>)]"
proof -
  let ?rows_of = "\<lambda>lang. if lang = ''btk'' then rows_a else if lang = ''bew'' then rows_b else []"
  have cfg: "seacrowd_config_constructor '''' ''source'' SOURCE_VERSION = Inr all_source"
    by (simp add: seacrowd_config_constructor_def new_SEACrowdConfig_def
        INVALID_WINDOWS_CHARACTERS_IN_PATH_def all_source_def SOURCE_VERSION_def
          make_Version_1_0_0)
  have gens: "split_generators (\<lambda>url. url) all_source
                = Inr (map (\<lambda>split. (split, PathList (map (URLS split) language_codes)))
                           [TRAIN, VALIDATION, TEST])"
    by (simp add: split_generators_def all_source_def Let_def)
  have mem: "(TRAIN, PathList (map (URLS TRAIN) language_codes))
               \<in> set (map (\<lambda>split. (split, PathList (map (URLS split) language_codes)))
                           [TRAIN, VALIDATION, TEST])"
    by simp
  have reads: "\<forall>lang \<in> set language_codes.
                 read_a_b (URLS TRAIN ''btk'') (URLS TRAIN ''bew'') (URLS TRAIN lang)
                   = Inr (?rows_of lang)"
    by (simp add: language_codes_def LANGUAGES_MAP_def read_a_b_def)
  have no_index: "(Map.empty :: string \<Rightarrow> (csv_row \<Rightarrow> pyval) option) ''index'' = None"
    by simp
  from aggregate_rows_reindexed
         [where download_and_extract = "\<lambda>url. url" and rows_of = ?rows_of
            and further = Map.empty, OF cfg gens mem reads no_index]
  obtain ys where
        run: "generate_examples (read_a_b (URLS TRAIN ''btk'') (URLS TRAIN ''bew'')) Map.empty
                all_source (PathList (map (URLS TRAIN) language_codes)) = Inr ys"
    and recs: "map snd ys
                = map (\<lambda>(i, r). \<lparr> ex_id = str_int (int i), ex_text = row_text r,
                                     ex_label = row_label r \<rparr>)
                      (enumerate 0 (concat (map ?rows_of language_codes)))"
    and keys: "map fst ys
                = map (\<lambda>i. PyInt (int i)) [0..<(\<Sum>lang\<leftarrow>language_codes. length (?rows_of lang))]"
    by blast
  have "ys = zip (map fst ys) (map snd ys)"
    by (simp add: zip_map_fst_snd)
  also have "\<dots> = [(PyInt 0, \<lparr> ex_id = ''0'', ex_text = PyStr ''a'', ex_label = PyStr ''happy'' \<rparr>),
              (PyInt 1, \<lparr> ex_id = ''1'', ex_text = PyStr ''b'', ex_label = PyStr ''sad'' \<rparr>),
              (PyInt 2, \<lparr> ex_id = ''2'', ex_text = PyStr ''c'', ex_label = PyStr ''fear'' \<rparr>),
              (PyInt 3, \<lparr> ex_id = ''3'', ex_text = PyStr ''d'', ex_label = PyStr ''angry'' \<rparr>),
              (PyInt 4, \<lparr> ex_id = ''4'', ex_text = PyStr ''e'', ex_label = PyStr ''shame'' \<rparr>)]"
    unfolding keys recs
    by (simp add: language_codes_def LANGUAGES_MAP_def rows_a_def rows_b_def enumerate_eq_zip
          upt_rec str_int_def str_nat.simps digit_char_def)
  finally show ?thesis
    using cfg gens mem run by simp
qed

text \<open>
  C2 as stated fails: when the split files have a column of their own named \<^verbatim>\<open>index\<close>,
  \<^verbatim>\<open>reset_index()\<close> names its column \<^verbatim>\<open>level_0\<close>, and the rename makes the files' column the
  \<^verbatim>\<open>id\<close>. With 70 and 80 in that column of each of the ten files, the keys are 70, 80,
  70, 80 and so on, not 0 to 19.
\<close>

theorem aggregate_rows_counterexample:
  "seacrowd_config_constructor '''' ''source'' SOURCE_VERSION = Inr all_source
   \<and> (TRAIN, PathList (map (URLS TRAIN) language_codes))
        \<in> set (projr (split_generators (\<lambda>url. url) all_source))
   \<and> (case generate_examples (\<lambda>p. Inr rows_own_index) index_header all_source
              (PathList (map (URLS TRAIN) language_codes)) of
        Inl e \<Rightarrow> False
      | Inr ys \<Rightarrow>
          take 4 ys
            = [(PyInt 70, \<lparr> ex_id = ''70'', ex_text = PyStr ''a'', ex_label = PyStr ''happy'' \<rparr>),
               (PyInt 80, \<lparr> ex_id = ''80'', ex_text = PyStr ''b'', ex_label = PyStr ''sad'' \<rparr>),
               (PyInt 70, \<lparr> ex_id = ''70'', ex_text = PyStr ''a'', ex_label = PyStr ''happy'' \<rparr>),
               (PyInt 80, \<lparr> ex_id = ''80'', ex_text = PyStr ''b'', ex_label = PyStr ''sad'' \<rparr>)]
          \<and> map fst ys = concat (replicate 10 [PyInt 70, PyInt 80])
          \<and> \<not> contiguous_ids ys)"
proof -
  have cfg: "seacrowd_config_constructor '''' ''source'' SOURCE_VERSION = Inr all_source"
    by (simp add: seacrowd_config_constructor_def new_SEACrowdConfig_def
        INVALID_WINDOWS_CHARACTERS_IN_PATH_def all_source_def SOURCE_VERSION_def
          make_Version_1_0_0)
  have gens: "split_generators (\<lambda>url. url) all_source
                = Inr (map (\<lambda>split. (split, PathList (map (URLS split) language_codes)))
                           [TRAIN, VALIDATION, TEST])"
    by (simp add: split_generators_def all_source_def Let_def)
  have valid: "schema all_source = ''source'' \<or> schema all_source = ''seacrowd_text''"
    by (simp add: all_source_def)
  have agg: "is_aggregate all_source"
    by (simp add: is_aggregate_def all_source_def)
  have ten: "length language_codes = 10"
    by (simp add: language_codes_def LANGUAGES_MAP_def)
  then have nonempty: "map (URLS TRAIN) language_codes \<noteq> []"
    by auto
  have reads: "map (\<lambda>p. Inr rows_own_index) (map (URLS TRAIN) language_codes)
                 = map Inr (replicate 10 rows_own_index)"
    by (simp add: map_replicate_const ten comp_def)
  have run: "generate_examples (\<lambda>p. Inr rows_own_index) index_header all_source
               (PathList (map (URLS TRAIN) language_codes))
      = Inr (map (\<lambda>(i, r). (row_own_index r, \<lparr> ex_id = py_str (row_own_index r),
                                                ex_text = row_text r, ex_label = row_label r \<rparr>))
                 (enumerate 0 (concat (replicate 10 rows_own_index))))"
    using generate_examples_aggregate [OF valid agg nonempty reads, of index_header]
    by (simp add: index_header_def)
  define ys where "ys = map (\<lambda>(i, r). (row_own_index r, \<lparr> ex_id = py_str (row_own_index r),
                                                ex_text = row_text r, ex_label = row_label r \<rparr>))
                 (enumerate 0 (concat (replicate 10 rows_own_index)))"
  have yielded: "generate_examples (\<lambda>p. Inr rows_own_index) index_header all_source
                   (PathList (map (URLS TRAIN) language_codes)) = Inr ys"
    unfolding ys_def by (rule run)
  have ten_times: "concat (replicate 10 xs)
      = xs @ xs @ xs @ xs @ xs @ xs @ xs @ xs @ xs @ xs" for xs :: "'a list"
    by (simp add: eval_nat_numeral)
  have keys: "map fst ys = concat (replicate 10 [PyInt 70, PyInt 80])"
    unfolding ys_def ten_times
    by (simp add: rows_own_index_def enumerate_eq_zip upt_rec)
  have first: "take 4 ys
            = [(PyInt 70, \<lparr> ex_id = ''70'', ex_text = PyStr ''a'', ex_label = PyStr ''happy'' \<rparr>),
               (PyInt 80, \<lparr> ex_id = ''80'', ex_text = PyStr ''b'', ex_label = PyStr ''sad'' \<rparr>),
               (PyInt 70, \<lparr> ex_id = ''70'', ex_text = PyStr ''a'', ex_label = PyStr ''happy'' \<rparr>),
               (PyInt 80, \<lparr> ex_id = ''80'', ex_text = PyStr ''b'', ex_label = PyStr ''sad'' \<rparr>)]"
    unfolding ys_def ten_times
    by (simp add: rows_own_index_def enumerate_eq_zip upt_rec
          str_int_def str_nat.simps digit_char_def)
  have "hd (map fst ys) = PyInt 70" and "ys \<noteq> []"
    unfolding ys_def ten_times
    by (simp_all add: rows_own_index_def enumerate_eq_zip upt_rec)
  then have "\<not> contiguous_ids ys"
    by (auto simp: contiguous_ids_def upt_rec [of 0] hd_map)
  with cfg gens first keys show ?thesis
    by (simp add: yielded)
qed

text \<open>
  C3, as the code has it: under the \<^verbatim>\<open>seacrowd_text\<close> schema the adapter declares the
  seven label names, and the emission copies each row's label as it was read, without a
  check; so every emitted label is one of the seven whenever every label of the files
  read is.
\<close>

theorem normalized_labels_from_files:
  assumes "schema config = ''seacrowd_text''"
      and "generate_examples read_csv further config filepath = Inr ys"
      and "(key, ex) \<in> set ys"
      and "\<forall>p \<in> set (filepath_list filepath). \<forall>parsed. read_csv p = Inr parsed \<longrightarrow>
             (\<forall>r \<in> set parsed. row_label r \<in> PyStr ` set emotion_labels)"
  shows "info config = Inr (text_features emotion_labels)
       \<and> (\<exists>p \<in> set (filepath_list filepath). \<exists>parsed. read_csv p = Inr parsed
             \<and> (\<exists>r \<in> set parsed. ex_label ex = row_label r))
       \<and> ex_label ex \<in> PyStr ` set emotion_labels"
proof -
  from assms(1) have "info config = Inr (text_features emotion_labels)"
    by (simp add: info_def)
  moreover from yielded_from_rows [OF assms(2,3)] obtain p parsed r
    where "p \<in> set (filepath_list filepath)" and "read_csv p = Inr parsed"
      and "r \<in> set parsed" and "ex_label ex = row_label r"
    by blast
  moreover from this assms(4) have "ex_label ex \<in> PyStr ` set emotion_labels"
    by auto
  ultimately show ?thesis
    by blast
qed

theorem normalized_labels_from_files_witness:
  "schema jav_seacrowd_text = ''seacrowd_text''
   \<and> generate_examples (\<lambda>p. Inr rows_b) Map.empty jav_seacrowd_text (Path ''train.csv'')
       = Inr [(PyInt 0, \<lparr> ex_id = ''0'', ex_text = PyStr ''c'', ex_label = PyStr ''fear'' \<rparr>),
              (PyInt 1, \<lparr> ex_id = ''1'', ex_text = PyStr ''d'', ex_label = PyStr ''angry'' \<rparr>),
              (PyInt 2, \<lparr> ex_id = ''2'', ex_text = PyStr ''e'', ex_label = PyStr ''shame'' \<rparr>)]
   \<and> list_all (\<lambda>r. row_label r \<in> PyStr ` set emotion_labels) rows_b
   \<and> ex_label \<lparr> ex_id = ''1'', ex_text = PyStr ''d'', ex_label = PyStr ''angry'' \<rparr>
        \<in> PyStr ` set emotion_labels"
proof -
  have sch: "schema jav_seacrowd_text = ''seacrowd_text''"
    by (simp add: jav_seacrowd_text_def)
  have run: "generate_examples (\<lambda>p. Inr rows_b) Map.empty jav_seacrowd_text (Path ''train.csv'')
       = Inr [(PyInt 0, \<lparr> ex_id = ''0'', ex_text = PyStr ''c'', ex_label = PyStr ''fear'' \<rparr>),
              (PyInt 1, \<lparr> ex_id = ''1'', ex_text = PyStr ''d'', ex_label = PyStr ''angry'' \<rparr>),
              (PyInt 2, \<lparr> ex_id = ''2'', ex_text = PyStr ''e'', ex_label = PyStr ''shame'' \<rparr>)]"
    by (simp add: generate_examples_def jav_seacrowd_text_def rows_b_def pd_read_csv_def reset_index_def
          yield_rows_def file_columns_def enumerate_eq_zip upt_rec str_int_def str_nat.simps digit_char_def)
  have mem: "(PyInt 1, \<lparr> ex_id = ''1'', ex_text = PyStr ''d'', ex_label = PyStr ''angry'' \<rparr>)
       \<in> set [(PyInt 0, \<lparr> ex_id = ''0'', ex_text = PyStr ''c'', ex_label = PyStr ''fear'' \<rparr>),
              (PyInt 1, \<lparr> ex_id = ''1'', ex_text = PyStr ''d'', ex_label = PyStr ''angry'' \<rparr>),
              (PyInt 2, \<lparr> ex_id = ''2'', ex_text = PyStr ''e'', ex_label = PyStr ''shame'' \<rparr>)]"
    by simp
  have labels: "list_all (\<lambda>r. row_label r \<in> PyStr ` set emotion_labels) rows_b"
    by (simp add: rows_b_def emotion_labels_def)
  then have files: "\<forall>p \<in> set (filepath_list (Path ''train.csv'')). \<forall>parsed.
      (\<lambda>p. Inr rows_b) p = (Inr parsed :: string + csv_row list) \<longrightarrow>
        (\<forall>r \<in> set parsed. row_label r \<in> PyStr ` set emotion_labels)"
    by (simp add: list_all_iff)
  from normalized_labels_from_files [OF sch run mem files] sch run labels
  show ?thesis
    by simp
qed

text \<open>
  C3 as stated fails: under the \<^verbatim>\<open>seacrowd_text\<close> schema a row labelled \<^verbatim>\<open>joy\<close> is emitted
  with the label \<^verbatim>\<open>joy\<close>, which is none of the seven declared names.
\<close>

theorem normalized_labels_counterexample:
  "seacrowd_config_constructor ''jav'' ''seacrowd_text'' SEACROWD_VERSION = Inr jav_seacrowd_text
   \<and> info jav_seacrowd_text
       = Inr (text_features [''fear'', ''disgusted'', ''sad'', ''happy'', ''angry'', ''surprise'',
                             ''shame''])
   \<and> generate_examples (\<lambda>p. Inr rows_joy) Map.empty jav_seacrowd_text (Path (URLS TRAIN ''jav''))
       = Inr [(PyInt 0, \<lparr> ex_id = ''0'', ex_text = PyStr ''a'', ex_label = PyStr ''joy'' \<rparr>)]
   \<and> PyStr ''joy'' \<notin> set (map PyStr [''fear'', ''disgusted'', ''sad'', ''happy'', ''angry'',
                                        ''surprise'', ''shame''])"
  by (simp add: seacrowd_config_constructor_def new_SEACrowdConfig_def
        INVALID_WINDOWS_CHARACTERS_IN_PATH_def jav_seacrowd_text_def SEACROWD_VERSION_def
        make_Version_1_0_0 info_def emotion_labels_def generate_examples_def rows_joy_def
        pd_read_csv_def reset_index_def yield_rows_def file_columns_def enumerate_eq_zip upt_rec str_int_def str_nat.simps digit_char_def)

text \<open>
  C7: for the same language scope and the same resolved files, the emission under the
  \<^verbatim>\<open>source\<close> schema and under the \<^verbatim>\<open>seacrowd_text\<close> schema is the same: the same pairs in
  the same order, or the same failure.
\<close>

theorem schema_variant_same_examples:
  assumes "seacrowd_config_constructor lang ''source'' v1 = Inr raw_config"
      and "seacrowd_config_constructor lang ''seacrowd_text'' v2 = Inr normalized_config"
  shows "generate_examples read_csv further raw_config filepath
           = generate_examples read_csv further normalized_config filepath"
proof -
  from assms have same_scope: "is_aggregate raw_config \<longleftrightarrow> is_aggregate normalized_config"
    by (simp add: constructor_is_aggregate)
  from assms(1) have raw_valid:
    "schema raw_config = ''source'' \<or> schema raw_config = ''seacrowd_text''"
    by (auto dest: constructor_schema)
  from assms(2) have normalized_valid:
    "schema normalized_config = ''source'' \<or> schema normalized_config = ''seacrowd_text''"
    by (auto dest: constructor_schema)
  show ?thesis
    by (rule generate_examples_config [OF raw_valid normalized_valid same_scope])
qed

theorem schema_variant_same_examples_witness:
  "seacrowd_config_constructor ''jav'' ''source'' SOURCE_VERSION = Inr jav_source
   \<and> seacrowd_config_constructor ''jav'' ''seacrowd_text'' SEACROWD_VERSION = Inr jav_seacrowd_text
   \<and> generate_examples (\<lambda>p. Inr rows_a) Map.empty jav_source (Path ''train.csv'')
       = generate_examples (\<lambda>p. Inr rows_a) Map.empty jav_seacrowd_text (Path ''train.csv'')
   \<and> generate_examples (\<lambda>p. Inr rows_a) Map.empty jav_seacrowd_text (Path ''train.csv'')
       = Inr [(PyInt 5, \<lparr> ex_id = ''5'', ex_text = PyStr ''a'', ex_label = PyStr ''happy'' \<rparr>),
              (PyInt 9, \<lparr> ex_id = ''9'', ex_text = PyStr ''b'', ex_label = PyStr ''sad'' \<rparr>)]"
proof -
  have raw: "seacrowd_config_constructor ''jav'' ''source'' SOURCE_VERSION = Inr jav_source"
    by (simp add: seacrowd_config_constructor_def new_SEACrowdConfig_def
        INVALID_WINDOWS_CHARACTERS_IN_PATH_def jav_source_def SOURCE_VERSION_def
          make_Version_1_0_0)
  have norm: "seacrowd_config_constructor ''jav'' ''seacrowd_text'' SEACROWD_VERSION
                = Inr jav_seacrowd_text"
    by (simp add: seacrowd_config_constructor_def new_SEACrowdConfig_def
        INVALID_WINDOWS_CHARACTERS_IN_PATH_def jav_seacrowd_text_def SEACROWD_VERSION_def
          make_Version_1_0_0)
  have run: "generate_examples (\<lambda>p. Inr rows_a) Map.empty jav_seacrowd_text (Path ''train.csv'')
       = Inr [(PyInt 5, \<lparr> ex_id = ''5'', ex_text = PyStr ''a'', ex_label = PyStr ''happy'' \<rparr>),
              (PyInt 9, \<lparr> ex_id = ''9'', ex_text = PyStr ''b'', ex_label = PyStr ''sad'' \<rparr>)]"
    by (simp add: generate_examples_def jav_seacrowd_text_def rows_a_def pd_read_csv_def reset_index_def
          yield_rows_def file_columns_def enumerate_eq_zip upt_rec str_int_def str_nat.simps digit_char_def)
  from schema_variant_same_examples
         [where read_csv = "\<lambda>p. Inr rows_a" and further = Map.empty
            and filepath = "Path ''train.csv''", OF raw norm]
       raw norm run
  show ?thesis
    by simp
qed

subsection \<open>Split resolution\<close>

text \<open>
  C8: for a configuration the constructor builds for no language, whose name is then one
  of the two all-languages names, each of the three splits is given the list of the ten
  files fetched from that split's URL for each language of the table, in the table's order;
  for a configuration built for a language of the table, each split is given the one file
  fetched from that split's URL for that language.
\<close>

theorem split_generators_fetches:
  assumes "seacrowd_config_constructor lang schema_name v = Inr config"
      and "lang = '''' \<or> lang \<in> set language_codes"
  shows "(is_aggregate config \<longleftrightarrow> lang = '''')
       \<and> length language_codes = 10
       \<and> split_generators download_and_extract config
           = Inr (if is_aggregate config
                  then map (\<lambda>split. (split, PathList (map (\<lambda>l. download_and_extract (URLS split l))
                                                         language_codes)))
                           [TRAIN, VALIDATION, TEST]
                  else map (\<lambda>split. (split, Path (download_and_extract (URLS split lang))))
                           [TRAIN, VALIDATION, TEST])"
proof -
  have scope: "is_aggregate config \<longleftrightarrow> lang = ''''"
    using assms(1) by (rule constructor_is_aggregate)
  have ten: "length language_codes = 10"
    by (simp add: language_codes_def LANGUAGES_MAP_def)
  have "split_generators download_and_extract config
           = Inr (if is_aggregate config
                  then map (\<lambda>split. (split, PathList (map (\<lambda>l. download_and_extract (URLS split l))
                                                         language_codes)))
                           [TRAIN, VALIDATION, TEST]
                  else map (\<lambda>split. (split, Path (download_and_extract (URLS split lang))))
                           [TRAIN, VALIDATION, TEST])"
  proof (cases "lang = ''''")
    case True
    with scope have "is_aggregate config"
      by simp
    then show ?thesis
      by (simp only: split_generators_aggregate if_True)
  next
    case False
    with assms(2) have "lang \<in> set language_codes"
      by simp
    then have "CHR ''_'' \<notin> set lang"
      by (simp add: language_codes_plain)
    from split_generators_single [OF assms(1) False this, of download_and_extract]
         scope False
    show ?thesis
      by simp
  qed
  with scope ten show ?thesis
    by blast
qed

theorem split_generators_fetches_witness:
  "split_generators (\<lambda>url. url) jav_source
     = Inr [(TRAIN, Path ''https://raw.githubusercontent.com/IndoNLP/nusa-writes/main/data/nusa_alinea-emot-jav-train.csv''),
            (VALIDATION, Path ''https://raw.githubusercontent.com/IndoNLP/nusa-writes/main/data/nusa_alinea-emot-jav-valid.csv''),
            (TEST, Path ''https://raw.githubusercontent.com/IndoNLP/nusa-writes/main/data/nusa_alinea-emot-jav-test.csv'')]
   \<and> split_generators (\<lambda>url. url) all_seacrowd_text
     = Inr [(TRAIN, PathList (map (URLS TRAIN) [''btk'', ''bew'', ''bug'', ''jav'', ''mad'', ''mak'',
                                                ''min'', ''mui'', ''rej'', ''sun''])),
            (VALIDATION, PathList (map (URLS VALIDATION) [''btk'', ''bew'', ''bug'', ''jav'', ''mad'',
                                                ''mak'', ''min'', ''mui'', ''rej'', ''sun''])),
            (TEST, PathList (map (URLS TEST) [''btk'', ''bew'', ''bug'', ''jav'', ''mad'', ''mak'',
                                                ''min'', ''mui'', ''rej'', ''sun'']))]"
proof -
  have single: "seacrowd_config_constructor ''jav'' ''source'' SOURCE_VERSION = Inr jav_source"
    by (simp add: seacrowd_config_constructor_def new_SEACrowdConfig_def
        INVALID_WINDOWS_CHARACTERS_IN_PATH_def jav_source_def SOURCE_VERSION_def
          make_Version_1_0_0)
  have jav: "''jav'' = '''' \<or> ''jav'' \<in> set language_codes"
    by (simp add: language_codes_def LANGUAGES_MAP_def)
  have all: "seacrowd_config_constructor '''' ''seacrowd_text'' SEACROWD_VERSION
               = Inr all_seacrowd_text"
    by (simp add: seacrowd_config_constructor_def new_SEACrowdConfig_def
        INVALID_WINDOWS_CHARACTERS_IN_PATH_def all_seacrowd_text_def SEACROWD_VERSION_def
          make_Version_1_0_0)
  have none: "'''' = '''' \<or> '''' \<in> set language_codes"
    by simp
  have codes: "language_codes = [''btk'', ''bew'', ''bug'', ''jav'', ''mad'', ''mak'',
                                 ''min'', ''mui'', ''rej'', ''sun'']"
    by (simp add: language_codes_def LANGUAGES_MAP_def)
  from split_generators_fetches [OF single jav, of "\<lambda>url. url"]
  have one: "split_generators (\<lambda>url. url) jav_source
     = Inr [(TRAIN, Path ''https://raw.githubusercontent.com/IndoNLP/nusa-writes/main/data/nusa_alinea-emot-jav-train.csv''),
            (VALIDATION, Path ''https://raw.githubusercontent.com/IndoNLP/nusa-writes/main/data/nusa_alinea-emot-jav-valid.csv''),
            (TEST, Path ''https://raw.githubusercontent.com/IndoNLP/nusa-writes/main/data/nusa_alinea-emot-jav-test.csv'')]"
    by simp
  from split_generators_fetches [OF all none, of "\<lambda>url. url"]
  have "split_generators (\<lambda>url. url) all_seacrowd_text
     = Inr [(TRAIN, PathList (map (URLS TRAIN) language_codes)),
            (VALIDATION, PathList (map (URLS VALIDATION) language_codes)),
            (TEST, PathList (map (URLS TEST) language_codes))]"
    by simp
  with one show ?thesis
    by (simp only: codes simp_thms)
qed

subsection \<open>The registry\<close>

text \<open>
  C4: the registry holds 22 configurations with pairwise different names: for each of the
  ten languages of the table one named \<^verbatim>\<open>nusaparagraph_emot_<lang>_source\<close> and one named
  \<^verbatim>\<open>nusaparagraph_emot_<lang>_seacrowd_text\<close>, each with the schema its name ends in, and the
  two all-languages configurations \<^verbatim>\<open>nusaparagraph_emot_source\<close> and
  \<^verbatim>\<open>nusaparagraph_emot_seacrowd_text\<close>.
\<close>

theorem builder_configs_registry:
  "\<exists>configs. BUILDER_CONFIGS = Inr configs
      \<and> length configs = 22
      \<and> distinct (map name configs)
      \<and> map (\<lambda>c. (name c, schema c)) configs
          = map (\<lambda>lang. (''nusaparagraph_emot_'' @ lang @ ''_'' @ ''source'', ''source''))
                language_codes
            @ map (\<lambda>lang. (''nusaparagraph_emot_'' @ lang @ ''_'' @ ''seacrowd_text'',
                             ''seacrowd_text''))
                  language_codes
            @ [(''nusaparagraph_emot_'' @ ''source'', ''source''),
               (''nusaparagraph_emot_'' @ ''seacrowd_text'', ''seacrowd_text'')]
      \<and> length language_codes = 10
      \<and> distinct language_codes"
  by (simp add: BUILDER_CONFIGS_def language_codes_def LANGUAGES_MAP_def
        seacrowd_config_constructor_def new_SEACrowdConfig_def
        INVALID_WINDOWS_CHARACTERS_IN_PATH_def SOURCE_VERSION_def SEACROWD_VERSION_def
        make_Version_1_0_0)

text \<open>
  C9: the default configuration name is the name of none of the registered configurations,
  so selecting by it finds none; the language code in it, its third piece \<^verbatim>\<open>ind\<close>, is not
  a key of the language table.
\<close>

theorem default_config_not_registered:
  "\<exists>configs. BUILDER_CONFIGS = Inr configs
      \<and> length configs = 22
      \<and> DEFAULT_CONFIG_NAME \<notin> set (map name configs)
      \<and> select_config DEFAULT_CONFIG_NAME configs = None
      \<and> str_split CHR ''_'' DEFAULT_CONFIG_NAME = [''nusaparagraph'', ''emot'', ''ind'', ''source'']
      \<and> ''ind'' \<notin> set language_codes
      \<and> map_of LANGUAGES_MAP ''ind'' = None"
  by (simp add: BUILDER_CONFIGS_def language_codes_def LANGUAGES_MAP_def
        seacrowd_config_constructor_def new_SEACrowdConfig_def
        INVALID_WINDOWS_CHARACTERS_IN_PATH_def SOURCE_VERSION_def SEACROWD_VERSION_def
        make_Version_1_0_0 DEFAULT_CONFIG_NAME_def select_config_def)

end
